theory Spec2Isabelle
  imports Main
begin

section \<open>Configuration loading\<close>

text \<open>
  The process environment is a finite map from variable names to values.
  \<open>os.Getenv\<close> returns the empty string for a variable that is not set, so a
  variable set to the empty string and an unset one are the same to the program.
\<close>

type_synonym environ = "string \<rightharpoonup> string"

definition Getenv :: "environ \<Rightarrow> string \<Rightarrow> string" where
  "Getenv env key = (case env key of None \<Rightarrow> [] | Some v \<Rightarrow> v)"

text \<open>
  \<open>strconv.ParseBool\<close> of the Go standard library accepts exactly twelve
  spellings; every other string is a syntax error (\<open>None\<close>: the program never
  reads the error's text).
\<close>

definition ParseBool :: "string \<Rightarrow> bool option" where
  "ParseBool str =
     (if str \<in> set [''1'', ''t'', ''T'', ''TRUE'', ''true'', ''True''] then Some True
      else if str \<in> set [''0'', ''f'', ''F'', ''FALSE'', ''false'', ''False''] then Some False
      else None)"

text \<open>\<open>getEnv\<close> and \<open>getEnvBool\<close> of cmd/server/main.go.\<close>

definition getEnv :: "environ \<Rightarrow> string \<Rightarrow> string \<Rightarrow> string" where
  "getEnv env key defaultValue =
     (let v = Getenv env key in if v = [] then defaultValue else v)"

definition getEnvBool :: "environ \<Rightarrow> string \<Rightarrow> bool \<Rightarrow> bool" where
  "getEnvBool env key defaultValue =
     (let v = Getenv env key in
      if v = [] then defaultValue
      else (case ParseBool v of
              None \<Rightarrow> defaultValue
            | Some boolValue \<Rightarrow> boolValue))"

text \<open>The same two helpers as the package \<open>config\<close> declares them.\<close>

definition config_getEnv :: "environ \<Rightarrow> string \<Rightarrow> string \<Rightarrow> string" where
  "config_getEnv env key defaultValue =
     (let v = Getenv env key in if v = [] then defaultValue else v)"

definition config_getEnvBool :: "environ \<Rightarrow> string \<Rightarrow> bool \<Rightarrow> bool" where
  "config_getEnvBool env key defaultValue =
     (let v = Getenv env key in
      if v = [] then defaultValue
      else (case ParseBool v of
              None \<Rightarrow> defaultValue
            | Some boolValue \<Rightarrow> boolValue))"

record MinIOConfig =
  Endpoint :: string
  AccessKeyID :: string
  SecretAccessKey :: string
  UseSSL :: bool
  BucketName :: string
  Location :: string

text \<open>
  \<open>loadMinIOConfig\<close> first fills the struct from the environment
  (\<open>resolveConfig\<close>, the composite literal of the source) and then runs four
  guards over the struct (\<open>checkConfig\<close>, the four \<open>if\<close> statements). A Go
  error is modelled by its \<open>Error()\<close> text; \<open>Inl\<close> is the error return.
\<close>

definition resolveConfig :: "environ \<Rightarrow> MinIOConfig" where
  "resolveConfig env =
     \<lparr> Endpoint = getEnv env ''MINIO_ENDPOINT'' ''localhost:9000'',
       AccessKeyID = getEnv env ''MINIO_ACCESS_KEY'' ''minio_admin'',
       SecretAccessKey = getEnv env ''MINIO_SECRET_KEY'' ''minio_password'',
       UseSSL = getEnvBool env ''MINIO_USE_SSL'' False,
       BucketName = getEnv env ''MINIO_BUCKET'' ''mybucket'',
       Location = getEnv env ''MINIO_LOCATION'' ''us-east-1'' \<rparr>"

definition checkConfig :: "MinIOConfig \<Rightarrow> string + MinIOConfig" where
  "checkConfig config =
     (if Endpoint config = [] then Inl ''MINIO_ENDPOINT is required''
      else if AccessKeyID config = [] then Inl ''MINIO_ACCESS_KEY is required''
      else if SecretAccessKey config = [] then Inl ''MINIO_SECRET_KEY is required''
      else if BucketName config = [] then Inl ''MINIO_BUCKET is required''
      else Inr config)"

definition loadMinIOConfig :: "environ \<Rightarrow> string + MinIOConfig" where
  "loadMinIOConfig env = checkConfig (resolveConfig env)"

text \<open>\<open>LoadMinIOConfig\<close> of the package \<open>config\<close>: the same literal and guards.\<close>

definition config_resolveConfig :: "environ \<Rightarrow> MinIOConfig" where
  "config_resolveConfig env =
     \<lparr> Endpoint = config_getEnv env ''MINIO_ENDPOINT'' ''localhost:9000'',
       AccessKeyID = config_getEnv env ''MINIO_ACCESS_KEY'' ''minio_admin'',
       SecretAccessKey = config_getEnv env ''MINIO_SECRET_KEY'' ''minio_password'',
       UseSSL = config_getEnvBool env ''MINIO_USE_SSL'' False,
       BucketName = config_getEnv env ''MINIO_BUCKET'' ''mybucket'',
       Location = config_getEnv env ''MINIO_LOCATION'' ''us-east-1'' \<rparr>"

definition LoadMinIOConfig :: "environ \<Rightarrow> string + MinIOConfig" where
  "LoadMinIOConfig env = checkConfig (config_resolveConfig env)"

section \<open>Strings, numbers and time\<close>

text \<open>
  Go strings and byte slices are byte sequences; both are \<open>string\<close> here.
  \<open>showInt\<close> is the verb \<open>%d\<close> of \<open>fmt\<close> on an integer: decimal digits, with
  a leading minus sign for a negative number.
\<close>

type_synonym bytes = string

definition digitChar :: "nat \<Rightarrow> char" where
  "digitChar d = char_of (48 + d)"

fun showNat :: "nat \<Rightarrow> string" where
  "showNat n = (if n < 10 then [digitChar n] else showNat (n div 10) @ [digitChar (n mod 10)])"

definition showInt :: "int \<Rightarrow> string" where
  "showInt i = (if i < 0 then CHR ''-'' # showNat (nat (- i)) else showNat (nat i))"

text \<open>
  \<open>filepath.Ext\<close> and \<open>filepath.Base\<close> of the Go standard library, on a build
  whose path separator is the slash (the image is built for Linux). \<open>Ext\<close>
  scans from the end of the path to the last slash and returns the suffix that
  starts at the first dot it meets; \<open>Base\<close> strips trailing slashes and returns
  the last element, \<open>.\<close> for the empty path and \<open>/\<close> for a path of slashes only.
\<close>

fun extScan :: "string \<Rightarrow> string \<Rightarrow> string" where
  "extScan [] acc = []"
| "extScan (ch # front) acc =
     (if ch = CHR ''/'' then []
      else if ch = CHR ''.'' then ch # acc
      else extScan front (ch # acc))"

definition Ext :: "string \<Rightarrow> string" where
  "Ext path = extScan (rev path) []"

definition Base :: "string \<Rightarrow> string" where
  "Base path =
     (if path = [] then ''.''
      else let stripped = rev (dropWhile (\<lambda>ch. ch = CHR ''/'') (rev path));
               element = rev (takeWhile (\<lambda>ch. ch \<noteq> CHR ''/'') (rev stripped))
           in if element = [] then ''/'' else element)"

text \<open>
  A \<open>time.Time\<close> is the pair of its Unix seconds and the nanoseconds within the
  second; \<open>Unix()\<close> reads the first. A \<open>time.Duration\<close> is a number of
  nanoseconds.
\<close>

record time =
  Unix :: int
  Nanosecond :: nat

type_synonym duration = int

definition Hour :: duration where
  "Hour = 3600000000000"

section \<open>The object store client\<close>

text \<open>
  The client library is not part of the repository: the gateway is verified
  against every client. A client is a record of its methods; each method reads
  and updates a backend state of an arbitrary type \<open>'s\<close> and returns its result
  with the new state. An error of the client carries the code that
  \<open>minio.ToErrorResponse(err).Code\<close> reads and the text of \<open>err.Error()\<close>.
\<close>

record minio_error =
  Code :: string
  Text :: string

record UploadInfo =
  UploadSize :: int

record ObjectInfo =
  Key :: string
  ObjSize :: int
  ObjContentType :: string
  LastModified :: time
  Err :: "minio_error option"

text \<open>
  What \<open>PutObject\<close> reads from: an open file (by its name) in \<open>uploadFile\<close>, a
  byte slice in \<open>UploadBuffer\<close>.
\<close>

datatype reader = FileReader string | BytesReader bytes

text \<open>
  \<open>GetObject\<close> returns a handle whose content is read later by \<open>io.ReadAll\<close>:
  the handle is the outcome of that read. \<open>ListObjects\<close> returns a channel; the
  list is what the channel delivers, in order, each entry with its \<open>Err\<close> field.
\<close>

record 's client =
  BucketExists :: "string \<Rightarrow> 's \<Rightarrow> (minio_error + bool) \<times> 's"
  MakeBucket :: "string \<Rightarrow> string \<Rightarrow> 's \<Rightarrow> minio_error option \<times> 's"
  PutObject :: "string \<Rightarrow> string \<Rightarrow> reader \<Rightarrow> int \<Rightarrow> string \<Rightarrow> 's \<Rightarrow> (minio_error + UploadInfo) \<times> 's"
  GetObject :: "string \<Rightarrow> string \<Rightarrow> 's \<Rightarrow> (minio_error + (string + bytes)) \<times> 's"
  ListObjects :: "string \<Rightarrow> string \<Rightarrow> bool \<Rightarrow> 's \<Rightarrow> ObjectInfo list \<times> 's"
  RemoveObject :: "string \<Rightarrow> string \<Rightarrow> 's \<Rightarrow> minio_error option \<times> 's"
  PresignedGetObject :: "string \<Rightarrow> string \<Rightarrow> duration \<Rightarrow> 's \<Rightarrow> (minio_error + string) \<times> 's"
  StatObject :: "string \<Rightarrow> string \<Rightarrow> 's \<Rightarrow> (minio_error + ObjectInfo) \<times> 's"

text \<open>
  The world a gateway operation runs in: the backend's state and the trace of
  the client calls made so far, oldest first. Every call of a client method goes
  through \<open>invoke\<close>, which appends the call to the trace.
\<close>

datatype call =
    BucketExistsCall string
  | MakeBucketCall string string
  | PutObjectCall string string reader int string
  | GetObjectCall string string
  | ListObjectsCall string string bool
  | RemoveObjectCall string string
  | PresignedGetObjectCall string string duration
  | StatObjectCall string string

record 's world =
  backend :: 's
  calls :: "call list"

definition invoke :: "call \<Rightarrow> ('s \<Rightarrow> 'r \<times> 's) \<Rightarrow> 's world \<Rightarrow> 'r \<times> 's world" where
  "invoke c m w =
     (case m (backend w) of
        (r, s') \<Rightarrow> (r, \<lparr> backend = s', calls = calls w @ [c] \<rparr>))"

section \<open>The storage gateway\<close>

text \<open>
  The methods of \<open>MinIOService\<close> in cmd/server/main.go. Each wraps a client error
  with \<open>fmt.Errorf("...: %w", err)\<close>: the text of the new error is the prefix
  followed by the text of the client's. Lines written by \<open>log.Printf\<close> are not
  part of the model.
\<close>

record 's MinIOService =
  Client :: "'s client"
  SvcBucketName :: string
  SvcLocation :: string

definition ensureBucket :: "'s MinIOService \<Rightarrow> 's world \<Rightarrow> string option \<times> 's world" where
  "ensureBucket s w =
     (case invoke (BucketExistsCall (SvcBucketName s))
             (BucketExists (Client s) (SvcBucketName s)) w of
        (Inl err, w1) \<Rightarrow> (Some (''failed to check if bucket exists: '' @ Text err), w1)
      | (Inr exists, w1) \<Rightarrow>
          (if \<not> exists then
             (case invoke (MakeBucketCall (SvcBucketName s) (SvcLocation s))
                     (MakeBucket (Client s) (SvcBucketName s) (SvcLocation s)) w1 of
                (Some err, w2) \<Rightarrow> (Some (''failed to create bucket: '' @ Text err), w2)
              | (None, w2) \<Rightarrow> (None, w2))
           else (None, w1)))"

text \<open>
  The local file system is outside the repository as well: \<open>platform\<close> holds
  the outcome of each call the upload path makes (\<open>os.CreateTemp\<close>, \<open>io.Copy\<close>
  into the temporary file, \<open>os.Open\<close>, \<open>File.Stat\<close> with the size it reports)
  and the readings of the clock, \<open>Now p 0\<close> the first \<open>time.Now()\<close> of a request
  and \<open>Now p 1\<close> the second. An error is its text.
\<close>

record platform =
  CreateTemp :: "string \<Rightarrow> string \<Rightarrow> string + string"
  Copy :: "string \<Rightarrow> bytes \<Rightarrow> string option"
  Open :: "string \<Rightarrow> string option"
  Stat :: "string \<Rightarrow> string + int"
  Now :: "nat \<Rightarrow> time"

definition uploadFile ::
  "platform \<Rightarrow> 's MinIOService \<Rightarrow> string \<Rightarrow> string \<Rightarrow> string \<Rightarrow> 's world
     \<Rightarrow> (string + UploadInfo) \<times> 's world" where
  "uploadFile p s objectName filePath contentType w =
     (case Open p filePath of
        Some err \<Rightarrow> (Inl (''failed to open file: '' @ err), w)
      | None \<Rightarrow>
          (case Stat p filePath of
             Inl err \<Rightarrow> (Inl (''failed to get file stats: '' @ err), w)
           | Inr fileSize \<Rightarrow>
               (case invoke (PutObjectCall (SvcBucketName s) objectName (FileReader filePath)
                               fileSize contentType)
                       (PutObject (Client s) (SvcBucketName s) objectName (FileReader filePath)
                          fileSize contentType) w of
                  (Inl err, w1) \<Rightarrow> (Inl (''failed to upload file: '' @ Text err), w1)
                | (Inr uploadInfo, w1) \<Rightarrow> (Inr uploadInfo, w1))))"

definition downloadBuffer :: "'s MinIOService \<Rightarrow> string \<Rightarrow> 's world \<Rightarrow> (string + bytes) \<times> 's world" where
  "downloadBuffer s objectName w =
     (case invoke (GetObjectCall (SvcBucketName s) objectName)
             (GetObject (Client s) (SvcBucketName s) objectName) w of
        (Inl err, w1) \<Rightarrow> (Inl (''failed to get object: '' @ Text err), w1)
      | (Inr obj, w1) \<Rightarrow>
          (case obj of
             Inl err \<Rightarrow> (Inl (''failed to read object data: '' @ err), w1)
           | Inr data \<Rightarrow> (Inr data, w1)))"

text \<open>The \<open>range\<close> loop of \<open>listObjects\<close> over the channel: it stops at the first entry that carries an error.\<close>

fun collectObjects :: "ObjectInfo list \<Rightarrow> ObjectInfo list \<Rightarrow> string + ObjectInfo list" where
  "collectObjects [] objects = Inr objects"
| "collectObjects (object # objectCh) objects =
     (case Err object of
        Some err \<Rightarrow> Inl (''error listing objects: '' @ Text err)
      | None \<Rightarrow> collectObjects objectCh (objects @ [object]))"

definition listObjects :: "'s MinIOService \<Rightarrow> string \<Rightarrow> 's world \<Rightarrow> (string + ObjectInfo list) \<times> 's world" where
  "listObjects s prefix w =
     (case invoke (ListObjectsCall (SvcBucketName s) prefix True)
             (ListObjects (Client s) (SvcBucketName s) prefix True) w of
        (objectCh, w1) \<Rightarrow> (collectObjects objectCh [], w1))"

definition deleteObject :: "'s MinIOService \<Rightarrow> string \<Rightarrow> 's world \<Rightarrow> string option \<times> 's world" where
  "deleteObject s objectName w =
     (case invoke (RemoveObjectCall (SvcBucketName s) objectName)
             (RemoveObject (Client s) (SvcBucketName s) objectName) w of
        (Some err, w1) \<Rightarrow> (Some (''failed to delete object: '' @ Text err), w1)
      | (None, w1) \<Rightarrow> (None, w1))"

text \<open>
  \<open>getObjectURL\<close> returns the pair of Go as it is, the URL and the error: on an
  error the URL is the empty string, and two of its callers read the URL
  without looking at the error.
\<close>

definition getObjectURL ::
  "'s MinIOService \<Rightarrow> string \<Rightarrow> duration \<Rightarrow> 's world \<Rightarrow> (string \<times> string option) \<times> 's world" where
  "getObjectURL s objectName expiry w =
     (case invoke (PresignedGetObjectCall (SvcBucketName s) objectName expiry)
             (PresignedGetObject (Client s) (SvcBucketName s) objectName expiry) w of
        (Inl err, w1) \<Rightarrow> (([], Some (''failed to generate presigned URL: '' @ Text err)), w1)
      | (Inr presignedURL, w1) \<Rightarrow> ((presignedURL, None), w1))"

definition checkObjectExists :: "'s MinIOService \<Rightarrow> string \<Rightarrow> 's world \<Rightarrow> (string + bool) \<times> 's world" where
  "checkObjectExists s objectName w =
     (case invoke (StatObjectCall (SvcBucketName s) objectName)
             (StatObject (Client s) (SvcBucketName s) objectName) w of
        (Inl err, w1) \<Rightarrow>
          (if Code err = ''NoSuchKey'' then (Inr False, w1)
           else (Inl (''failed to check if object exists: '' @ Text err), w1))
      | (Inr info, w1) \<Rightarrow> (Inr True, w1))"

text \<open>
  The same operations as the package \<open>storage\<close> (internal/storage/minio.go)
  declares them; they differ from the ones above by the log lines only.
\<close>

definition EnsureBucket :: "'s MinIOService \<Rightarrow> 's world \<Rightarrow> string option \<times> 's world" where
  "EnsureBucket s w =
     (case invoke (BucketExistsCall (SvcBucketName s))
             (BucketExists (Client s) (SvcBucketName s)) w of
        (Inl err, w1) \<Rightarrow> (Some (''failed to check if bucket exists: '' @ Text err), w1)
      | (Inr exists, w1) \<Rightarrow>
          (if \<not> exists then
             (case invoke (MakeBucketCall (SvcBucketName s) (SvcLocation s))
                     (MakeBucket (Client s) (SvcBucketName s) (SvcLocation s)) w1 of
                (Some err, w2) \<Rightarrow> (Some (''failed to create bucket: '' @ Text err), w2)
              | (None, w2) \<Rightarrow> (None, w2))
           else (None, w1)))"

definition DeleteObject :: "'s MinIOService \<Rightarrow> string \<Rightarrow> 's world \<Rightarrow> string option \<times> 's world" where
  "DeleteObject s objectName w =
     (case invoke (RemoveObjectCall (SvcBucketName s) objectName)
             (RemoveObject (Client s) (SvcBucketName s) objectName) w of
        (Some err, w1) \<Rightarrow> (Some (''failed to delete object: '' @ Text err), w1)
      | (None, w1) \<Rightarrow> (None, w1))"

definition CheckObjectExists :: "'s MinIOService \<Rightarrow> string \<Rightarrow> 's world \<Rightarrow> (string + bool) \<times> 's world" where
  "CheckObjectExists s objectName w =
     (case invoke (StatObjectCall (SvcBucketName s) objectName)
             (StatObject (Client s) (SvcBucketName s) objectName) w of
        (Inl err, w1) \<Rightarrow>
          (if Code err = ''NoSuchKey'' then (Inr False, w1)
           else (Inl (''failed to check if object exists: '' @ Text err), w1))
      | (Inr info, w1) \<Rightarrow> (Inr True, w1))"

section \<open>The response envelope\<close>

record FileInfo =
  FileName :: string
  Size :: int
  ContentType :: string
  URL :: string
  UploadedAt :: time

text \<open>
  The \<open>data\<close> argument of \<open>sendResponse\<close> is an \<open>interface{}\<close>; the handlers
  pass \<open>nil\<close>, a \<open>FileInfo\<close> or a slice of \<open>FileInfo\<close>. The slice of the list
  handler starts as the nil slice and grows by \<open>append\<close>, so it is the nil slice
  exactly when it has no element.
\<close>

datatype payload = NoData | FileData FileInfo | FileListData "FileInfo list"

record Response =
  Success :: bool
  Message :: string
  Data :: payload

text \<open>
  The document \<open>encoding/json\<close> writes, as a tree. The struct tags decide the
  keys: \<open>url\<close> and \<open>data\<close> are \<open>omitempty\<close>, so an empty URL and a nil \<open>data\<close>
  leave their keys out; a nil slice held by the interface is not nil and is
  written as \<open>null\<close>. A number, a string and a time are leaves (their rendering
  is not modelled). Marshalling fails on a time whose year is outside 0..9999
  (in UTC), and on nothing else these types hold.
\<close>

datatype json =
    JNull
  | JBool bool
  | JNumber int
  | JString string
  | JTime time
  | JArray "json list"
  | JObject "(string \<times> json) list"

definition yearInRange :: "time \<Rightarrow> bool" where
  "yearInRange t = (- 62167219200 \<le> Unix t \<and> Unix t \<le> 253402300799)"

definition encodeFileInfo :: "FileInfo \<Rightarrow> json option" where
  "encodeFileInfo fi =
     (if yearInRange (UploadedAt fi) then
        Some (JObject
          ([(''fileName'', JString (FileName fi)),
            (''size'', JNumber (Size fi)),
            (''contentType'', JString (ContentType fi))]
           @ (if URL fi = [] then [] else [(''url'', JString (URL fi))])
           @ [(''uploadedAt'', JTime (UploadedAt fi))]))
      else None)"

fun encodeFileList :: "FileInfo list \<Rightarrow> json list option" where
  "encodeFileList [] = Some []"
| "encodeFileList (fi # rest) =
     (case encodeFileInfo fi of
        None \<Rightarrow> None
      | Some j \<Rightarrow> (case encodeFileList rest of None \<Rightarrow> None | Some js \<Rightarrow> Some (j # js)))"

definition encodeResponse :: "Response \<Rightarrow> json option" where
  "encodeResponse response =
     (let head = [(''success'', JBool (Success response)),
                  (''message'', JString (Message response))]
      in case Data response of
           NoData \<Rightarrow> Some (JObject head)
         | FileData fi \<Rightarrow>
             (case encodeFileInfo fi of
                None \<Rightarrow> None
              | Some j \<Rightarrow> Some (JObject (head @ [(''data'', j)])))
         | FileListData fileList \<Rightarrow>
             (if fileList = [] then Some (JObject (head @ [(''data'', JNull)]))
              else (case encodeFileList fileList of
                      None \<Rightarrow> None
                    | Some js \<Rightarrow> Some (JObject (head @ [(''data'', JArray js)])))))"

text \<open>
  What a handler has written when it returns: the status line, the headers it
  set and the body. In \<open>sendResponse\<close> the status is written before the body is
  encoded, so a failure of the encoder changes the body only (\<open>http.Error\<close>
  cannot replace a status or a header that is already sent).
\<close>

datatype body = JSONBody json | TextBody string | BytesBody bytes | RedirectBody string

record ResponseWriter =
  Status :: nat
  Header :: "(string \<times> string) list"
  Body :: body

definition sendResponse :: "bool \<Rightarrow> string \<Rightarrow> payload \<Rightarrow> nat \<Rightarrow> ResponseWriter" where
  "sendResponse success message data statusCode =
     (let response = \<lparr> Success = success, Message = message, Data = data \<rparr>
      in \<lparr> Status = statusCode,
           Header = [(''Content-Type'', ''application/json'')],
           Body = (case encodeResponse response of
                     Some j \<Rightarrow> JSONBody j
                   | None \<Rightarrow> TextBody (''Error encoding response'' @ [CHR 0x0A])) \<rparr>)"

section \<open>The HTTP adapter\<close>

text \<open>
  A request as the handlers read it: the method, \<open>r.URL.Path\<close>, the query
  parameters in the order of the URL (\<open>Get\<close> returns the first value of a key,
  the empty string when the key is absent) and the outcome of
  \<open>r.FormFile("file")\<close>, an error text or the part with its file name, the
  \<open>Content-Type\<close> of its header (empty when the part has none) and its bytes.
\<close>

record FileHeader =
  Filename :: string
  PartContentType :: string
  Content :: bytes

record Request =
  Method :: string
  Path :: string
  Query :: "(string \<times> string) list"
  FormFile :: "string + FileHeader"

definition queryGet :: "Request \<Rightarrow> string \<Rightarrow> string" where
  "queryGet r key = (case map_of (Query r) key of None \<Rightarrow> [] | Some v \<Rightarrow> v)"

text \<open>
  A handler returns what it wrote, or panics (the slice expression of the
  retrieve handler, on a path shorter than the route prefix).
\<close>

datatype outcome = Responded ResponseWriter | Panicked

definition uploadHandler ::
  "platform \<Rightarrow> 's MinIOService \<Rightarrow> Request \<Rightarrow> 's world \<Rightarrow> outcome \<times> 's world" where
  "uploadHandler p s r w =
     (if Method r \<noteq> ''POST'' then
        (Responded (sendResponse False ''Method not allowed'' NoData 405), w)
      else case FormFile r of
        Inl err \<Rightarrow>
          (Responded (sendResponse False (''Error retrieving file: '' @ err) NoData 400), w)
      | Inr handler \<Rightarrow>
          (case CreateTemp p [] (''upload-*'' @ Ext (Filename handler)) of
             Inl err \<Rightarrow>
               (Responded (sendResponse False (''Error creating temporary file: '' @ err) NoData 500), w)
           | Inr tempFile \<Rightarrow>
               (case Copy p tempFile (Content handler) of
                  Some err \<Rightarrow>
                    (Responded (sendResponse False (''Error saving temporary file: '' @ err) NoData 500), w)
                | None \<Rightarrow>
                    (let objectName = ''uploads/'' @ showInt (Unix (Now p 0)) @ ''-'' @ Filename handler;
                         contentType = (if PartContentType handler = [] then ''application/octet-stream''
                                        else PartContentType handler)
                     in case uploadFile p s objectName tempFile contentType w of
                          (Inl err, w1) \<Rightarrow>
                            (Responded (sendResponse False (''Error uploading to MinIO: '' @ err) NoData 500), w1)
                        | (Inr uploadInfo, w1) \<Rightarrow>
                            (case getObjectURL s objectName (Hour * 24) w1 of
                               ((url, err), w2) \<Rightarrow>
                                 (Responded (sendResponse True ''File uploaded successfully''
                                    (FileData \<lparr> FileName = Filename handler,
                                                Size = UploadSize uploadInfo,
                                                ContentType = contentType,
                                                URL = url,
                                                UploadedAt = Now p 1 \<rparr>) 200), w2))))))"

text \<open>The loop of the list handler: one presigned URL per object, the error dropped.\<close>

fun fileListLoop ::
  "'s MinIOService \<Rightarrow> ObjectInfo list \<Rightarrow> FileInfo list \<Rightarrow> 's world \<Rightarrow> FileInfo list \<times> 's world" where
  "fileListLoop s [] fileList w = (fileList, w)"
| "fileListLoop s (obj # objects) fileList w =
     (case getObjectURL s (Key obj) (Hour * 24) w of
        ((url, err), w1) \<Rightarrow>
          fileListLoop s objects
            (fileList @ [\<lparr> FileName = Base (Key obj),
                            Size = ObjSize obj,
                            ContentType = ObjContentType obj,
                            URL = url,
                            UploadedAt = LastModified obj \<rparr>]) w1)"

definition listFilesHandler :: "'s MinIOService \<Rightarrow> Request \<Rightarrow> 's world \<Rightarrow> outcome \<times> 's world" where
  "listFilesHandler s r w =
     (if Method r \<noteq> ''GET'' then
        (Responded (sendResponse False ''Method not allowed'' NoData 405), w)
      else let prefix = (if queryGet r ''prefix'' = [] then ''uploads/'' else queryGet r ''prefix'')
           in case listObjects s prefix w of
                (Inl err, w1) \<Rightarrow>
                  (Responded (sendResponse False (''Error listing files: '' @ err) NoData 500), w1)
              | (Inr objects, w1) \<Rightarrow>
                  (case fileListLoop s objects [] w1 of
                     (fileList, w2) \<Rightarrow>
                       (Responded (sendResponse True
                          (''Found '' @ showInt (int (length fileList)) @ '' files'')
                          (FileListData fileList) 200), w2)))"

definition getFileHandler :: "'s MinIOService \<Rightarrow> Request \<Rightarrow> 's world \<Rightarrow> outcome \<times> 's world" where
  "getFileHandler s r w =
     (if Method r \<noteq> ''GET'' then
        (Responded (sendResponse False ''Method not allowed'' NoData 405), w)
      else if length (Path r) < length ''/files/'' then (Panicked, w)
      else let objectName = drop (length ''/files/'') (Path r)
           in if objectName = [] then
                (Responded (sendResponse False ''Object name is required'' NoData 400), w)
              else case checkObjectExists s objectName w of
                (Inl err, w1) \<Rightarrow>
                  (Responded (sendResponse False (''Error checking object: '' @ err) NoData 500), w1)
              | (Inr exists, w1) \<Rightarrow>
                  (if \<not> exists then
                     (Responded (sendResponse False ''File not found'' NoData 404), w1)
                   else if queryGet r ''download'' = ''true'' then
                     (case downloadBuffer s objectName w1 of
                        (Inl err, w2) \<Rightarrow>
                          (Responded (sendResponse False (''Error downloading file: '' @ err) NoData 500), w2)
                      | (Inr data, w2) \<Rightarrow>
                          (Responded
                             \<lparr> Status = 200,
                               Header = [(''Content-Disposition'', ''attachment; filename='' @ Base objectName),
                                         (''Content-Type'', ''application/octet-stream''),
                                         (''Content-Length'', showInt (int (length data)))],
                               Body = BytesBody data \<rparr>, w2))
                   else
                     (case getObjectURL s objectName Hour w1 of
                        ((url, Some err), w2) \<Rightarrow>
                          (Responded (sendResponse False (''Error generating URL: '' @ err) NoData 500), w2)
                      | ((url, None), w2) \<Rightarrow>
                          (Responded \<lparr> Status = 302, Header = [(''Location'', url)],
                                       Body = RedirectBody url \<rparr>, w2))))"

definition healthCheckHandler :: "'s MinIOService \<Rightarrow> Request \<Rightarrow> 's world \<Rightarrow> outcome \<times> 's world" where
  "healthCheckHandler s r w =
     (case listObjects s [] w of
        (Inl err, w1) \<Rightarrow>
          (Responded (sendResponse False (''MinIO service is not healthy: '' @ err) NoData 503), w1)
      | (Inr objects, w1) \<Rightarrow>
          (Responded (sendResponse True ''Service is healthy'' NoData 200), w1))"

section \<open>Startup and routing\<close>





text \<open>
  The four routes \<open>main\<close> registers, in its order. A pattern that ends in a
  slash accepts every path it is a prefix of, any other pattern the path equal
  to it; a path no pattern accepts gets the 404 of the multiplexer. (The
  multiplexer's redirect of a path that is not in canonical form is not
  modelled.)
\<close>

definition routes ::
  "platform \<Rightarrow> 's MinIOService \<Rightarrow> (string \<times> (Request \<Rightarrow> 's world \<Rightarrow> outcome \<times> 's world)) list" where
  "routes p s =
     [(''/upload'', uploadHandler p s),
      (''/files'', listFilesHandler s),
      (''/files/'', getFileHandler s),
      (''/health'', healthCheckHandler s)]"

definition accepts :: "string \<Rightarrow> string \<Rightarrow> bool" where
  "accepts pattern path =
     (if pattern \<noteq> [] \<and> last pattern = CHR ''/''
      then take (length pattern) path = pattern
      else path = pattern)"

definition serve :: "platform \<Rightarrow> 's MinIOService \<Rightarrow> Request \<Rightarrow> 's world \<Rightarrow> outcome \<times> 's world" where
  "serve p s r w =
     (case find (\<lambda>route. accepts (fst route) (Path r)) (routes p s) of
        None \<Rightarrow>
          (Responded \<lparr> Status = 404,
                       Header = [(''Content-Type'', ''text/plain; charset=utf-8'')],
                       Body = TextBody (''404 page not found'' @ [CHR 0x0A]) \<rparr>, w)
      | Some route \<Rightarrow> snd route r w)"

text \<open>The client calls a run has added to the trace.\<close>

definition newCalls :: "'s world \<Rightarrow> 's world \<Rightarrow> call list" where
  "newCalls w w' = drop (length (calls w)) (calls w')"

fun isRemoveObject :: "call \<Rightarrow> bool" where
  "isRemoveObject (RemoveObjectCall bucket objectName) = True"
| "isRemoveObject other = False"

fun isMakeBucket :: "call \<Rightarrow> bool" where
  "isMakeBucket (MakeBucketCall bucket region) = True"
| "isMakeBucket other = False"

section \<open>A client to run the model on\<close>

text \<open>
  A client over the list of the buckets that exist, for concrete runs. It
  holds no object: a probe reports \<open>NoSuchKey\<close>, a listing is empty, a write is
  acknowledged with the size it was given and a URL is always signed.
\<close>

definition noSuchKey :: minio_error where
  "noSuchKey = \<lparr> Code = ''NoSuchKey'', Text = ''The specified key does not exist.'' \<rparr>"

definition accessDenied :: minio_error where
  "accessDenied = \<lparr> Code = ''AccessDenied'', Text = ''Access Denied.'' \<rparr>"

definition memClient :: "string list client" where
  "memClient =
     \<lparr> BucketExists = (\<lambda>bucket st. (Inr (bucket \<in> set st), st)),
       MakeBucket = (\<lambda>bucket region st.
          if bucket \<in> set st
          then (Some \<lparr> Code = ''BucketAlreadyOwnedByYou'', Text = ''bucket exists'' \<rparr>, st)
          else (None, bucket # st)),
       PutObject = (\<lambda>bucket objectName rd n contentType st. (Inr \<lparr> UploadSize = n \<rparr>, st)),
       GetObject = (\<lambda>bucket objectName st. (Inl noSuchKey, st)),
       ListObjects = (\<lambda>bucket prefix recursive st. ([], st)),
       RemoveObject = (\<lambda>bucket objectName st. (None, st)),
       PresignedGetObject = (\<lambda>bucket objectName expiry st.
          (Inr (''http://localhost:9000/'' @ bucket @ ''/'' @ objectName), st)),
       StatObject = (\<lambda>bucket objectName st. (Inl noSuchKey, st)) \<rparr>"

definition memService :: "string list MinIOService" where
  "memService = \<lparr> Client = memClient, SvcBucketName = ''mybucket'', SvcLocation = ''us-east-1'' \<rparr>"

definition memWorld :: "string list world" where
  "memWorld = \<lparr> backend = [''mybucket''], calls = [] \<rparr>"

definition memPlatform :: platform where
  "memPlatform =
     \<lparr> CreateTemp = (\<lambda>dir pattern. Inr (''/tmp/'' @ pattern)),
       Copy = (\<lambda>name content. None),
       Open = (\<lambda>name. None),
       Stat = (\<lambda>name. Inr 10),
       Now = (\<lambda>n. \<lparr> Unix = 1700000000, Nanosecond = n \<rparr>) \<rparr>"

section \<open>Requests and services to run the handlers on\<close>

text \<open>
  A service whose metadata probe is refused and one whose URL signing is
  refused; a retrieve request with an empty key and one with the key \<open>a.txt\<close>;
  an upload part without a content type and one with its own; the upload
  request that carries a part.
\<close>

definition deniedService :: "string list MinIOService" where
  "deniedService =
     memService \<lparr> Client := memClient \<lparr> StatObject := (\<lambda>b k st. (Inl accessDenied, st)) \<rparr> \<rparr>"

definition unsignedService :: "string list MinIOService" where
  "unsignedService =
     memService \<lparr> Client := memClient \<lparr> PresignedGetObject := (\<lambda>b k d st. (Inl accessDenied, st)) \<rparr> \<rparr>"

definition emptyKeyRequest :: Request where
  "emptyKeyRequest =
     \<lparr> Method = ''GET'', Path = ''/files/'', Query = [], FormFile = Inl ''http: no such file'' \<rparr>"

definition retrieveRequest :: Request where
  "retrieveRequest =
     \<lparr> Method = ''GET'', Path = ''/files/a.txt'', Query = [], FormFile = Inl ''http: no such file'' \<rparr>"

definition plainPart :: FileHeader where
  "plainPart = \<lparr> Filename = ''a.txt'', PartContentType = [], Content = ''0123456789'' \<rparr>"

definition typedPart :: FileHeader where
  "typedPart =
     \<lparr> Filename = ''notes.md'', PartContentType = ''text/markdown'', Content = ''0123456789'' \<rparr>"

definition uploadRequest :: "FileHeader \<Rightarrow> Request" where
  "uploadRequest part = \<lparr> Method = ''POST'', Path = ''/upload'', Query = [], FormFile = Inr part \<rparr>"


definition signedURL :: "'s MinIOService \<Rightarrow> string \<Rightarrow> 's \<Rightarrow> string" where
  "signedURL s objectName st =
     (case fst (PresignedGetObject (Client s) (SvcBucketName s) objectName (Hour * 24) st) of
        Inl err \<Rightarrow> []
      | Inr presignedURL \<Rightarrow> presignedURL)"

text \<open>
  A list request without a query; a listing of two objects and a service that
  lists them and refuses to sign a URL for the first.
\<close>

definition listRequest :: Request where
  "listRequest = \<lparr> Method = ''GET'', Path = ''/files'', Query = [], FormFile = Inl ''http: no such file'' \<rparr>"




section \<open>The contract of the bucket calls\<close>

text \<open>
  What the gateway may expect of a backend for one bucket: the existence probe
  changes nothing, a creation that succeeds makes the probe answer yes, and a
  creation that fails changes nothing.
\<close>

definition bucketContract :: "'s client \<Rightarrow> string \<Rightarrow> bool" where
  "bucketContract c bucket =
     ((\<forall>st. snd (BucketExists c bucket st) = st)
      \<and> (\<forall>region st. fst (MakeBucket c bucket region st) = None \<longrightarrow>
            fst (BucketExists c bucket (snd (MakeBucket c bucket region st))) = Inr True)
      \<and> (\<forall>region st. fst (MakeBucket c bucket region st) \<noteq> None \<longrightarrow>
            snd (MakeBucket c bucket region st) = st))"

text \<open>\<open>ensureBucket\<close> called \<open>n\<close> times in succession, each call in the world the last one left.\<close>

fun ensureBucketTimes :: "nat \<Rightarrow> 's MinIOService \<Rightarrow> 's world \<Rightarrow> 's world" where
  "ensureBucketTimes 0 s w = w"
| "ensureBucketTimes (Suc n) s w = ensureBucketTimes n s (snd (ensureBucket s w))"

text \<open>The effect of one \<open>ensureBucket\<close> on the backend state alone.\<close>

definition ensureBackend :: "'s MinIOService \<Rightarrow> 's \<Rightarrow> 's" where
  "ensureBackend s st =
     (case fst (BucketExists (Client s) (SvcBucketName s) st) of
        Inl err \<Rightarrow> snd (BucketExists (Client s) (SvcBucketName s) st)
      | Inr exists \<Rightarrow>
          if exists then snd (BucketExists (Client s) (SvcBucketName s) st)
          else snd (MakeBucket (Client s) (SvcBucketName s) (SvcLocation s)
                      (snd (BucketExists (Client s) (SvcBucketName s) st))))"

section \<open>Properties of configuration loading\<close>

lemma ParseBool_empty: "ParseBool [] = None"
  by (simp add: ParseBool_def)

lemma getEnv_nonempty: "d \<noteq> [] \<Longrightarrow> getEnv env key d \<noteq> []"
  by (simp add: getEnv_def Let_def)

text \<open>
  Every default of \<open>loadMinIOConfig\<close> is a non-empty string, and \<open>getEnv\<close>
  replaces an empty value by the default: no environment resolves a required
  setting to the empty string, and the loader never returns an error.
\<close>

lemma resolveConfig_nonempty:
  "Endpoint (resolveConfig env) \<noteq> [] \<and> AccessKeyID (resolveConfig env) \<noteq> []
   \<and> SecretAccessKey (resolveConfig env) \<noteq> [] \<and> BucketName (resolveConfig env) \<noteq> []"
  by (simp add: resolveConfig_def getEnv_nonempty)

lemma loadMinIOConfig_total: "loadMinIOConfig env = Inr (resolveConfig env)"
  using resolveConfig_nonempty [of env] by (simp add: loadMinIOConfig_def checkConfig_def)

lemma config_packages_agree: "LoadMinIOConfig env = loadMinIOConfig env"
  by (simp add: LoadMinIOConfig_def loadMinIOConfig_def config_resolveConfig_def resolveConfig_def
      config_getEnv_def getEnv_def config_getEnvBool_def getEnvBool_def)

text \<open>
  Claim C10. A boolean variable that is set to a value \<open>strconv.ParseBool\<close>
  rejects yields the default, in both copies of \<open>getEnvBool\<close>; a value it
  accepts yields the parsed boolean; a result that differs from the default
  comes from a set, parseable value only; and with \<open>MINIO_USE_SSL\<close>
  unparseable the configuration still loads, with TLS off (the default), in
  both copies of the loader.
\<close>

theorem getEnvBool_unparseable_yields_default:
  "(env key = Some v \<and> ParseBool v = None \<longrightarrow>
      getEnvBool env key d = d \<and> config_getEnvBool env key d = d)
   \<and> (env key = Some v \<and> ParseBool v = Some b \<longrightarrow>
      getEnvBool env key d = b \<and> config_getEnvBool env key d = b)
   \<and> (getEnvBool env key d \<noteq> d \<longrightarrow>
      (\<exists>u. env key = Some u \<and> ParseBool u = Some (getEnvBool env key d)))
   \<and> (env ''MINIO_USE_SSL'' = Some v \<and> ParseBool v = None \<longrightarrow>
      (\<exists>config. loadMinIOConfig env = Inr config \<and> UseSSL config = False)
      \<and> (\<exists>config. LoadMinIOConfig env = Inr config \<and> UseSSL config = False))"
proof (intro conjI impI)
  assume a: "env key = Some v \<and> ParseBool v = None"
  then show "getEnvBool env key d = d"
    by (simp add: getEnvBool_def Getenv_def Let_def)
  from a show "config_getEnvBool env key d = d"
    by (simp add: config_getEnvBool_def Getenv_def Let_def)
next
  assume a: "env key = Some v \<and> ParseBool v = Some b"
  then have "v \<noteq> []" using ParseBool_empty by auto
  with a show "getEnvBool env key d = b"
    by (simp add: getEnvBool_def Getenv_def Let_def)
  from a \<open>v \<noteq> []\<close> show "config_getEnvBool env key d = b"
    by (simp add: config_getEnvBool_def Getenv_def Let_def)
next
  assume "getEnvBool env key d \<noteq> d"
  then show "\<exists>u. env key = Some u \<and> ParseBool u = Some (getEnvBool env key d)"
    by (auto simp: getEnvBool_def Getenv_def Let_def split: option.splits if_splits)
next
  assume a: "env ''MINIO_USE_SSL'' = Some v \<and> ParseBool v = None"
  then have "getEnvBool env ''MINIO_USE_SSL'' False = False"
    by (simp add: getEnvBool_def Getenv_def Let_def)
  then have u: "UseSSL (resolveConfig env) = False"
    by (simp add: resolveConfig_def)
  show "\<exists>config. loadMinIOConfig env = Inr config \<and> UseSSL config = False"
    using u loadMinIOConfig_total by blast
  then show "\<exists>config. LoadMinIOConfig env = Inr config \<and> UseSSL config = False"
    by (simp add: config_packages_agree)
qed

theorem getEnvBool_unparseable_yields_default_witness:
  "getEnvBool [''MINIO_USE_SSL'' \<mapsto> ''yes''] ''MINIO_USE_SSL'' True = True
   \<and> getEnvBool [''MINIO_USE_SSL'' \<mapsto> ''0''] ''MINIO_USE_SSL'' True = False
   \<and> (\<exists>config. loadMinIOConfig [''MINIO_USE_SSL'' \<mapsto> ''yes''] = Inr config \<and> UseSSL config = False)"
  using getEnvBool_unparseable_yields_default
          [of "[''MINIO_USE_SSL'' \<mapsto> ''yes'']" "''MINIO_USE_SSL''" "''yes''" True False]
        getEnvBool_unparseable_yields_default
          [of "[''MINIO_USE_SSL'' \<mapsto> ''0'']" "''MINIO_USE_SSL''" "''0''" True False]
  by (simp add: ParseBool_def)




text \<open>
  The four guards of the loader do refuse a configuration record with an empty
  required field; by \<open>resolveConfig_nonempty\<close> no environment hands them one.
\<close>

lemma checkConfig_guards:
  "Endpoint c = [] \<or> AccessKeyID c = [] \<or> SecretAccessKey c = [] \<or> BucketName c = []
     \<Longrightarrow> \<exists>msg. checkConfig c = Inl msg"
  by (auto simp: checkConfig_def)




section \<open>Properties of the storage gateway\<close>

lemma invoke_eq:
  "invoke c m w = (fst (m (backend w)), \<lparr> backend = snd (m (backend w)), calls = calls w @ [c] \<rparr>)"
  by (simp add: invoke_def split: prod.splits)

lemma storage_CheckObjectExists_agrees: "CheckObjectExists s key w = checkObjectExists s key w"
  by (simp add: CheckObjectExists_def checkObjectExists_def)

lemma checkObjectExists_eq:
  "checkObjectExists s key w =
     ((case fst (StatObject (Client s) (SvcBucketName s) key (backend w)) of
         Inl err \<Rightarrow> if Code err = ''NoSuchKey'' then Inr False
                     else Inl (''failed to check if object exists: '' @ Text err)
       | Inr info \<Rightarrow> Inr True),
      \<lparr> backend = snd (StatObject (Client s) (SvcBucketName s) key (backend w)),
        calls = calls w @ [StatObjectCall (SvcBucketName s) key] \<rparr>)"
  by (simp add: checkObjectExists_def invoke_eq split: sum.splits)

text \<open>
  Claim C2. For every key, with \<open>r\<close> the answer of the backend's metadata
  probe: \<open>checkObjectExists\<close> returns false without an error exactly when the
  probe fails with the code \<open>NoSuchKey\<close>; on every other failure of the probe
  it returns an error that carries the backend's text; on a successful probe
  it returns true. \<open>CheckObjectExists\<close> of the package \<open>storage\<close> is the same
  function.
\<close>

theorem objectExists_separates_not_found:
  assumes "fst (StatObject (Client s) (SvcBucketName s) key (backend w)) = r"
  shows "(fst (checkObjectExists s key w) = Inr False \<longleftrightarrow> (\<exists>e. r = Inl e \<and> Code e = ''NoSuchKey''))
       \<and> (\<forall>e. r = Inl e \<and> Code e \<noteq> ''NoSuchKey'' \<longrightarrow>
             fst (checkObjectExists s key w) = Inl (''failed to check if object exists: '' @ Text e))
       \<and> (\<forall>info. r = Inr info \<longrightarrow> fst (checkObjectExists s key w) = Inr True)
       \<and> CheckObjectExists s key w = checkObjectExists s key w"
  using assms
  by (cases r) (auto simp: checkObjectExists_eq storage_CheckObjectExists_agrees)

theorem objectExists_separates_not_found_witness:
  "fst (checkObjectExists memService ''uploads/a.txt'' memWorld) = Inr False
   \<and> fst (checkObjectExists (memService \<lparr> Client := memClient \<lparr> StatObject := (\<lambda>b k st. (Inl accessDenied, st)) \<rparr> \<rparr>)
          ''uploads/a.txt'' memWorld)
       = Inl ''failed to check if object exists: Access Denied.''"
  using objectExists_separates_not_found
          [of memService "''uploads/a.txt''" memWorld "Inl noSuchKey"]
        objectExists_separates_not_found
          [of "memService \<lparr> Client := memClient \<lparr> StatObject := (\<lambda>b k st. (Inl accessDenied, st)) \<rparr> \<rparr>"
              "''uploads/a.txt''" memWorld "Inl accessDenied"]
  by (simp add: memService_def memClient_def memWorld_def noSuchKey_def accessDenied_def)

lemma storage_EnsureBucket_agrees: "EnsureBucket s w = ensureBucket s w"
  by (simp add: EnsureBucket_def ensureBucket_def)

lemma ensureBucket_backend: "backend (snd (ensureBucket s w)) = ensureBackend s (backend w)"
  by (simp add: ensureBucket_def ensureBackend_def invoke_eq split: sum.splits option.splits prod.splits)

lemma ensureBackend_idem:
  assumes "bucketContract (Client s) (SvcBucketName s)"
  shows "ensureBackend s (ensureBackend s st) = ensureBackend s st"
proof -
  let ?c = "Client s" and ?b = "SvcBucketName s" and ?l = "SvcLocation s"
  from assms have ro: "\<And>t. snd (BucketExists ?c ?b t) = t"
    and mk: "\<And>t. fst (MakeBucket ?c ?b ?l t) = None \<Longrightarrow>
               fst (BucketExists ?c ?b (snd (MakeBucket ?c ?b ?l t))) = Inr True"
    and fl: "\<And>t. fst (MakeBucket ?c ?b ?l t) \<noteq> None \<Longrightarrow> snd (MakeBucket ?c ?b ?l t) = t"
    by (auto simp: bucketContract_def)
  show ?thesis
  proof (cases "fst (BucketExists ?c ?b st)")
    case (Inl e)
    then show ?thesis by (simp add: ensureBackend_def ro)
  next
    case (Inr ex)
    show ?thesis
    proof (cases ex)
      case True
      with Inr show ?thesis by (simp add: ensureBackend_def ro)
    next
      case False
      with Inr have step: "ensureBackend s st = snd (MakeBucket ?c ?b ?l st)"
        by (simp add: ensureBackend_def ro)
      show ?thesis
      proof (cases "fst (MakeBucket ?c ?b ?l st) = None")
        case True
        from mk [OF True] show ?thesis
          by (simp add: step) (simp add: ensureBackend_def ro)
      next
        case False
        from fl [OF False] step have "ensureBackend s st = st" by simp
        then show ?thesis by simp
      qed
    qed
  qed
qed

lemma ensureBucketTimes_backend:
  assumes "bucketContract (Client s) (SvcBucketName s)"
  shows "backend (ensureBucketTimes (Suc n) s w) = backend (snd (ensureBucket s w))"
proof (induction n arbitrary: w)
  case 0
  show ?case by simp
next
  case (Suc n)
  have "backend (ensureBucketTimes (Suc (Suc n)) s w)
          = backend (ensureBucketTimes (Suc n) s (snd (ensureBucket s w)))" by simp
  also have "\<dots> = backend (snd (ensureBucket s (snd (ensureBucket s w))))" by (rule Suc.IH)
  also have "\<dots> = backend (snd (ensureBucket s w))"
    by (simp add: ensureBucket_backend ensureBackend_idem [OF assms])
  finally show ?case .
qed

lemma ensureBucket_existing:
  assumes "fst (BucketExists (Client s) (SvcBucketName s) (backend w)) = Inr True"
  shows "ensureBucket s w =
           (None, \<lparr> backend = snd (BucketExists (Client s) (SvcBucketName s) (backend w)),
                    calls = calls w @ [BucketExistsCall (SvcBucketName s)] \<rparr>)"
  using assms by (simp add: ensureBucket_def invoke_eq)

lemma ensureBucket_creates_only_if_absent:
  assumes "\<exists>c \<in> set (newCalls w (snd (ensureBucket s w))). isMakeBucket c"
  shows "fst (BucketExists (Client s) (SvcBucketName s) (backend w)) = Inr False"
  using assms
  by (cases "fst (BucketExists (Client s) (SvcBucketName s) (backend w))")
     (auto simp: ensureBucket_def invoke_eq newCalls_def split: option.splits if_splits)

lemma memClient_bucketContract: "bucketContract memClient bucket"
  by (simp add: bucketContract_def memClient_def)


text \<open>
  Claim C8. When the probe reports the bucket present, \<open>ensureBucket\<close>
  succeeds and its only client call is the probe: no creation is attempted. A
  creation is attempted only when the probe reported the bucket absent. On a
  backend that keeps the contract of the bucket calls, a call on an existing
  bucket leaves the backend state as it was, and any number of calls in
  succession, at least one, leave the backend state one call leaves.
  \<open>EnsureBucket\<close> of the package \<open>storage\<close> is the same function.
\<close>

theorem ensureBucket_idempotent:
  "(fst (BucketExists (Client s) (SvcBucketName s) (backend w)) = Inr True \<longrightarrow>
      fst (ensureBucket s w) = None
      \<and> newCalls w (snd (ensureBucket s w)) = [BucketExistsCall (SvcBucketName s)])
   \<and> ((\<exists>c \<in> set (newCalls w (snd (ensureBucket s w))). isMakeBucket c) \<longrightarrow>
      fst (BucketExists (Client s) (SvcBucketName s) (backend w)) = Inr False)
   \<and> (bucketContract (Client s) (SvcBucketName s) \<longrightarrow>
      (fst (BucketExists (Client s) (SvcBucketName s) (backend w)) = Inr True \<longrightarrow>
         backend (snd (ensureBucket s w)) = backend w)
      \<and> backend (ensureBucketTimes (Suc n) s w) = backend (snd (ensureBucket s w)))
   \<and> EnsureBucket s w = ensureBucket s w"
proof (intro conjI impI)
  assume e: "fst (BucketExists (Client s) (SvcBucketName s) (backend w)) = Inr True"
  show "fst (ensureBucket s w) = None"
    by (simp add: ensureBucket_existing [OF e])
  show "newCalls w (snd (ensureBucket s w)) = [BucketExistsCall (SvcBucketName s)]"
    by (simp add: ensureBucket_existing [OF e] newCalls_def)
next
  assume "\<exists>c \<in> set (newCalls w (snd (ensureBucket s w))). isMakeBucket c"
  then show "fst (BucketExists (Client s) (SvcBucketName s) (backend w)) = Inr False"
    by (rule ensureBucket_creates_only_if_absent)
next
  assume c: "bucketContract (Client s) (SvcBucketName s)"
    and e: "fst (BucketExists (Client s) (SvcBucketName s) (backend w)) = Inr True"
  from c have "snd (BucketExists (Client s) (SvcBucketName s) (backend w)) = backend w"
    by (simp add: bucketContract_def)
  then show "backend (snd (ensureBucket s w)) = backend w"
    by (simp add: ensureBucket_existing [OF e])
next
  assume c: "bucketContract (Client s) (SvcBucketName s)"
  show "backend (ensureBucketTimes (Suc n) s w) = backend (snd (ensureBucket s w))"
    by (rule ensureBucketTimes_backend [OF c])
next
  show "EnsureBucket s w = ensureBucket s w" by (rule storage_EnsureBucket_agrees)
qed

theorem ensureBucket_idempotent_witness:
  "fst (ensureBucket memService memWorld) = None
   \<and> newCalls memWorld (snd (ensureBucket memService memWorld)) = [BucketExistsCall ''mybucket'']
   \<and> backend (snd (ensureBucket memService memWorld)) = [''mybucket'']
   \<and> fst (BucketExists memClient ''mybucket'' []) = Inr False
   \<and> backend (ensureBucketTimes (Suc 2) memService \<lparr> backend = [], calls = [] \<rparr>) = [''mybucket'']"
proof -
  let ?w0 = "\<lparr> backend = [], calls = [] \<rparr> :: string list world"
  have c: "bucketContract (Client memService) (SvcBucketName memService)"
    by (simp add: memService_def memClient_bucketContract)
  have e: "fst (BucketExists (Client memService) (SvcBucketName memService) (backend memWorld)) = Inr True"
    by (simp add: memService_def memClient_def memWorld_def)
  have r: "ensureBucket memService ?w0 =
             (None, \<lparr> backend = [''mybucket''],
                      calls = [BucketExistsCall ''mybucket'', MakeBucketCall ''mybucket'' ''us-east-1''] \<rparr>)"
    by (simp add: ensureBucket_def invoke_def memService_def memClient_def)
  have m: "\<exists>c \<in> set (newCalls ?w0 (snd (ensureBucket memService ?w0))). isMakeBucket c"
    by (simp add: r newCalls_def)
  note t1 = ensureBucket_idempotent [of memService memWorld 2]
  note t2 = ensureBucket_idempotent [of memService ?w0 2]
  from t1 e have a: "fst (ensureBucket memService memWorld) = None
      \<and> newCalls memWorld (snd (ensureBucket memService memWorld)) = [BucketExistsCall (SvcBucketName memService)]"
    by blast
  from t1 c e have b: "backend (snd (ensureBucket memService memWorld)) = backend memWorld"
    by blast
  from t2 m have d: "fst (BucketExists (Client memService) (SvcBucketName memService) (backend ?w0)) = Inr False"
    by blast
  from t2 c have "backend (ensureBucketTimes (Suc 2) memService ?w0) = backend (snd (ensureBucket memService ?w0))"
    by blast
  then have f: "backend (ensureBucketTimes (Suc 2) memService ?w0) = [''mybucket'']"
    by (simp only: r snd_conv world.simps)
  have sb: "SvcBucketName memService = ''mybucket''" and cl: "Client memService = memClient"
    and bw: "backend memWorld = [''mybucket'']"
    by (simp_all add: memService_def memWorld_def)
  from a b d f show ?thesis
    by (simp only: sb cl bw world.simps simp_thms)
qed

section \<open>Properties of the HTTP adapter\<close>

lemma sendResponse_Status: "Status (sendResponse success message data statusCode) = statusCode"
  by (simp add: sendResponse_def Let_def)

lemma sendResponse_NoData:
  "sendResponse success message NoData statusCode =
     \<lparr> Status = statusCode,
       Header = [(''Content-Type'', ''application/json'')],
       Body = JSONBody (JObject [(''success'', JBool success), (''message'', JString message)]) \<rparr>"
  by (simp add: sendResponse_def encodeResponse_def Let_def)

lemma drop_route_prefix: "drop (length ''/files/'') (''/files/'' @ key) = key"
  by simp

lemma getFileHandler_GET:
  assumes "Method r = ''GET''" and "Path r = ''/files/'' @ key"
  shows "getFileHandler s r w =
     (if key = [] then
        (Responded (sendResponse False ''Object name is required'' NoData 400), w)
      else case checkObjectExists s key w of
        (Inl err, w1) \<Rightarrow>
          (Responded (sendResponse False (''Error checking object: '' @ err) NoData 500), w1)
      | (Inr exists, w1) \<Rightarrow>
          (if \<not> exists then
             (Responded (sendResponse False ''File not found'' NoData 404), w1)
           else if queryGet r ''download'' = ''true'' then
             (case downloadBuffer s key w1 of
                (Inl err, w2) \<Rightarrow>
                  (Responded (sendResponse False (''Error downloading file: '' @ err) NoData 500), w2)
              | (Inr data, w2) \<Rightarrow>
                  (Responded
                     \<lparr> Status = 200,
                       Header = [(''Content-Disposition'', ''attachment; filename='' @ Base key),
                                 (''Content-Type'', ''application/octet-stream''),
                                 (''Content-Length'', showInt (int (length data)))],
                       Body = BytesBody data \<rparr>, w2))
           else
             (case getObjectURL s key Hour w1 of
                ((url, Some err), w2) \<Rightarrow>
                  (Responded (sendResponse False (''Error generating URL: '' @ err) NoData 500), w2)
              | ((url, None), w2) \<Rightarrow>
                  (Responded \<lparr> Status = 302, Header = [(''Location'', url)],
                               Body = RedirectBody url \<rparr>, w2))))"
  unfolding getFileHandler_def assms Let_def drop_route_prefix
  by simp

text \<open>
  Claim C1. For a request with the method \<open>GET\<close> whose path is the route prefix
  \<open>/files/\<close> followed by \<open>key\<close>: when the key is empty the retrieve handler
  answers 400 and leaves the world as it found it, so it made no client call;
  when the key is not empty and the metadata probe fails with the code
  \<open>NoSuchKey\<close> (the existence check reports the object absent) it answers 404;
  when the probe fails with any other code it answers 500 and the message of
  the body ends with the text of the backend's error.
\<close>

theorem getFileHandler_error_statuses:
  assumes "Method r = ''GET''" and "Path r = ''/files/'' @ key"
  shows "(key = [] \<longrightarrow>
            getFileHandler s r w = (Responded (sendResponse False ''Object name is required'' NoData 400), w)
            \<and> Status (sendResponse False ''Object name is required'' NoData 400) = 400
            \<and> newCalls w (snd (getFileHandler s r w)) = [])
       \<and> (\<forall>e. key \<noteq> [] \<and> fst (StatObject (Client s) (SvcBucketName s) key (backend w)) = Inl e
                \<and> Code e = ''NoSuchKey'' \<longrightarrow>
            fst (getFileHandler s r w) = Responded (sendResponse False ''File not found'' NoData 404)
            \<and> Status (sendResponse False ''File not found'' NoData 404) = 404)
       \<and> (\<forall>e. key \<noteq> [] \<and> fst (StatObject (Client s) (SvcBucketName s) key (backend w)) = Inl e
                \<and> Code e \<noteq> ''NoSuchKey'' \<longrightarrow>
            (\<exists>resp. fst (getFileHandler s r w) = Responded resp
               \<and> Status resp = 500
               \<and> Body resp = JSONBody (JObject
                    [(''success'', JBool False),
                     (''message'', JString (''Error checking object: failed to check if object exists: ''
                                              @ Text e))])))"
proof (intro conjI impI allI)
  assume "key = []"
  then show k: "getFileHandler s r w = (Responded (sendResponse False ''Object name is required'' NoData 400), w)"
    by (simp add: getFileHandler_GET [OF assms])
  show "Status (sendResponse False ''Object name is required'' NoData 400) = 400"
    by (rule sendResponse_Status)
  show "newCalls w (snd (getFileHandler s r w)) = []"
    by (simp add: k newCalls_def)
next
  fix e
  assume a: "key \<noteq> [] \<and> fst (StatObject (Client s) (SvcBucketName s) key (backend w)) = Inl e
                \<and> Code e = ''NoSuchKey''"
  then show "fst (getFileHandler s r w) = Responded (sendResponse False ''File not found'' NoData 404)"
    by (simp add: getFileHandler_GET [OF assms] checkObjectExists_eq)
  show "Status (sendResponse False ''File not found'' NoData 404) = 404"
    by (rule sendResponse_Status)
next
  fix e
  assume a: "key \<noteq> [] \<and> fst (StatObject (Client s) (SvcBucketName s) key (backend w)) = Inl e
                \<and> Code e \<noteq> ''NoSuchKey''"
  then have "fst (getFileHandler s r w) =
      Responded (sendResponse False
        (''Error checking object: '' @ ''failed to check if object exists: '' @ Text e) NoData 500)"
    by (simp add: getFileHandler_GET [OF assms] checkObjectExists_eq)
  then show "\<exists>resp. fst (getFileHandler s r w) = Responded resp
               \<and> Status resp = 500
               \<and> Body resp = JSONBody (JObject
                    [(''success'', JBool False),
                     (''message'', JString (''Error checking object: failed to check if object exists: ''
                                              @ Text e))])"
    by (simp add: sendResponse_NoData)
qed

theorem getFileHandler_error_statuses_witness:
  "getFileHandler memService emptyKeyRequest memWorld
     = (Responded (sendResponse False ''Object name is required'' NoData 400), memWorld)
   \<and> Status (sendResponse False ''Object name is required'' NoData 400) = 400
   \<and> newCalls memWorld (snd (getFileHandler memService emptyKeyRequest memWorld)) = []
   \<and> fst (getFileHandler memService retrieveRequest memWorld)
     = Responded (sendResponse False ''File not found'' NoData 404)
   \<and> (\<exists>resp. fst (getFileHandler deniedService retrieveRequest memWorld) = Responded resp
         \<and> Status resp = 500
         \<and> Body resp = JSONBody (JObject
              [(''success'', JBool False),
               (''message'', JString ''Error checking object: failed to check if object exists: Access Denied.'')]))"
proof -
  have m0: "Method emptyKeyRequest = ''GET''" and p0: "Path emptyKeyRequest = ''/files/'' @ []"
    by (simp_all add: emptyKeyRequest_def)
  have m1: "Method retrieveRequest = ''GET''" and p1: "Path retrieveRequest = ''/files/'' @ ''a.txt''"
    by (simp_all add: retrieveRequest_def)
  have nf: "''a.txt'' \<noteq> []
      \<and> fst (StatObject (Client memService) (SvcBucketName memService) ''a.txt'' (backend memWorld))
              = Inl noSuchKey \<and> Code noSuchKey = ''NoSuchKey''"
    by (simp add: memService_def memClient_def noSuchKey_def)
  have dn: "''a.txt'' \<noteq> []
      \<and> fst (StatObject (Client deniedService) (SvcBucketName deniedService) ''a.txt'' (backend memWorld))
              = Inl accessDenied \<and> Code accessDenied \<noteq> ''NoSuchKey''"
    by (simp add: deniedService_def memService_def accessDenied_def)
  have t: "''Error checking object: failed to check if object exists: '' @ Text accessDenied
       = ''Error checking object: failed to check if object exists: Access Denied.''"
    by (simp add: accessDenied_def)
  note a = getFileHandler_error_statuses [OF m0 p0, of memService memWorld,
             THEN conjunct1, rule_format, OF refl]
  note b = getFileHandler_error_statuses [OF m1 p1, of memService memWorld,
             THEN conjunct2, THEN conjunct1, rule_format, OF nf, THEN conjunct1]
  note c = getFileHandler_error_statuses [OF m1 p1, of deniedService memWorld,
             THEN conjunct2, THEN conjunct2, rule_format, OF dn, unfolded t]
  show ?thesis
    by (rule conjI [OF a [THEN conjunct1] conjI [OF a [THEN conjunct2, THEN conjunct1]
          conjI [OF a [THEN conjunct2, THEN conjunct2] conjI [OF b c]]]])
qed

lemma getObjectURL_eq:
  "getObjectURL s objectName expiry w =
     ((case fst (PresignedGetObject (Client s) (SvcBucketName s) objectName expiry (backend w)) of
         Inl err \<Rightarrow> ([], Some (''failed to generate presigned URL: '' @ Text err))
       | Inr presignedURL \<Rightarrow> (presignedURL, None)),
      \<lparr> backend = snd (PresignedGetObject (Client s) (SvcBucketName s) objectName expiry (backend w)),
        calls = calls w @ [PresignedGetObjectCall (SvcBucketName s) objectName expiry] \<rparr>)"
  by (simp add: getObjectURL_def invoke_eq split: sum.splits)

lemma uploadFile_opened:
  assumes "Open p filePath = None" and "Stat p filePath = Inr n"
  shows "uploadFile p s objectName filePath contentType w =
     ((case fst (PutObject (Client s) (SvcBucketName s) objectName (FileReader filePath) n contentType (backend w)) of
         Inl err \<Rightarrow> Inl (''failed to upload file: '' @ Text err)
       | Inr uploadInfo \<Rightarrow> Inr uploadInfo),
      \<lparr> backend = snd (PutObject (Client s) (SvcBucketName s) objectName (FileReader filePath) n contentType (backend w)),
        calls = calls w @ [PutObjectCall (SvcBucketName s) objectName (FileReader filePath) n contentType] \<rparr>)"
  by (simp add: uploadFile_def assms invoke_eq split: sum.splits)

lemma uploadHandler_buffered:
  assumes "Method r = ''POST''" and "FormFile r = Inr h"
    and "CreateTemp p [] (''upload-*'' @ Ext (Filename h)) = Inr tmp"
    and "Copy p tmp (Content h) = None"
  shows "uploadHandler p s r w =
     (case uploadFile p s (''uploads/'' @ showInt (Unix (Now p 0)) @ ''-'' @ Filename h) tmp
             (if PartContentType h = [] then ''application/octet-stream'' else PartContentType h) w of
        (Inl err, w1) \<Rightarrow>
          (Responded (sendResponse False (''Error uploading to MinIO: '' @ err) NoData 500), w1)
      | (Inr uploadInfo, w1) \<Rightarrow>
          (case getObjectURL s (''uploads/'' @ showInt (Unix (Now p 0)) @ ''-'' @ Filename h) (Hour * 24) w1 of
             ((url, err), w2) \<Rightarrow>
               (Responded (sendResponse True ''File uploaded successfully''
                  (FileData \<lparr> FileName = Filename h,
                              Size = UploadSize uploadInfo,
                              ContentType = (if PartContentType h = [] then ''application/octet-stream''
                                             else PartContentType h),
                              URL = url,
                              UploadedAt = Now p 1 \<rparr>) 200), w2)))"
  by (simp only: uploadHandler_def Let_def assms sum.case option.case if_False simp_thms)

lemma newCalls_append: "calls w' = calls w @ cs \<Longrightarrow> newCalls w w' = cs"
  by (simp add: newCalls_def)



lemma uploadHandler_stored:
  assumes "Method r = ''POST''" and "FormFile r = Inr h"
    and "CreateTemp p [] (''upload-*'' @ Ext (Filename h)) = Inr tmp"
    and "Copy p tmp (Content h) = None" and "Open p tmp = None" and "Stat p tmp = Inr n"
    and "key = ''uploads/'' @ showInt (Unix (Now p 0)) @ ''-'' @ Filename h"
    and "ct = (if PartContentType h = [] then ''application/octet-stream'' else PartContentType h)"
  shows "uploadHandler p s r w =
     (case fst (PutObject (Client s) (SvcBucketName s) key (FileReader tmp) n ct (backend w)) of
        Inl e \<Rightarrow>
          (Responded (sendResponse False (''Error uploading to MinIO: failed to upload file: '' @ Text e) NoData 500),
           \<lparr> backend = snd (PutObject (Client s) (SvcBucketName s) key (FileReader tmp) n ct (backend w)),
             calls = calls w @ [PutObjectCall (SvcBucketName s) key (FileReader tmp) n ct] \<rparr>)
      | Inr info \<Rightarrow>
          (Responded (sendResponse True ''File uploaded successfully''
             (FileData \<lparr> FileName = Filename h, Size = UploadSize info, ContentType = ct,
                URL = (case fst (PresignedGetObject (Client s) (SvcBucketName s) key (Hour * 24)
                                   (snd (PutObject (Client s) (SvcBucketName s) key (FileReader tmp) n ct (backend w)))) of
                         Inl e \<Rightarrow> [] | Inr u \<Rightarrow> u),
                UploadedAt = Now p 1 \<rparr>) 200),
           \<lparr> backend = snd (PresignedGetObject (Client s) (SvcBucketName s) key (Hour * 24)
                            (snd (PutObject (Client s) (SvcBucketName s) key (FileReader tmp) n ct (backend w)))),
             calls = calls w @ [PutObjectCall (SvcBucketName s) key (FileReader tmp) n ct,
                                PresignedGetObjectCall (SvcBucketName s) key (Hour * 24)] \<rparr>))"
proof -
  let ?put = "PutObject (Client s) (SvcBucketName s) key (FileReader tmp) n ct (backend w)"
  note h = uploadHandler_buffered [OF assms(1-4), of s w, folded assms(7) assms(8)]
  note u = uploadFile_opened [OF assms(5) assms(6), of s key ct w]
  show ?thesis
  proof (cases "fst ?put")
    case (Inl e)
    then show ?thesis by (simp add: h u)
  next
    case (Inr info)
    then show ?thesis
      by (simp add: h u getObjectURL_eq split: sum.splits)
  qed
qed

text \<open>
  Claim C7. An upload is accepted when the request is a \<open>POST\<close> with a file
  part, the temporary file is created and filled, and it can be opened and
  measured. With \<open>f\<close> the file name of the part, \<open>c\<close> its content type and
  \<open>Now p 0\<close> the first reading of the clock, the first client call of the
  handler is then the write of the object, under the key \<open>uploads/\<close>, the Unix
  time in decimal, a hyphen and \<open>f\<close>, with the content type \<open>c\<close> when \<open>c\<close> is
  not empty and \<open>application/octet-stream\<close> when it is; the only other call is
  the signing of a URL for the same key, made when the write succeeded.
\<close>

theorem upload_key_and_content_type:
  assumes "Method r = ''POST''" and "FormFile r = Inr h"
    and "CreateTemp p [] (''upload-*'' @ Ext (Filename h)) = Inr tmp"
    and "Copy p tmp (Content h) = None" and "Open p tmp = None" and "Stat p tmp = Inr n"
    and "key = ''uploads/'' @ showInt (Unix (Now p 0)) @ ''-'' @ Filename h"
    and "ct = (if PartContentType h = [] then ''application/octet-stream'' else PartContentType h)"
  shows "newCalls w (snd (uploadHandler p s r w)) =
           PutObjectCall (SvcBucketName s) key (FileReader tmp) n ct #
           (case fst (PutObject (Client s) (SvcBucketName s) key (FileReader tmp) n ct (backend w)) of
              Inl e \<Rightarrow> []
            | Inr info \<Rightarrow> [PresignedGetObjectCall (SvcBucketName s) key (Hour * 24)])"
  by (cases "fst (PutObject (Client s) (SvcBucketName s) key (FileReader tmp) n ct (backend w))")
     (simp_all add: uploadHandler_stored [OF assms] newCalls_def)


lemma sendResponse_FileData:
  assumes "yearInRange (UploadedAt fi)"
  shows "sendResponse success message (FileData fi) statusCode =
     \<lparr> Status = statusCode,
       Header = [(''Content-Type'', ''application/json'')],
       Body = JSONBody (JObject
         [(''success'', JBool success), (''message'', JString message),
          (''data'', JObject
             ([(''fileName'', JString (FileName fi)),
               (''size'', JNumber (Size fi)),
               (''contentType'', JString (ContentType fi))]
              @ (if URL fi = [] then [] else [(''url'', JString (URL fi))])
              @ [(''uploadedAt'', JTime (UploadedAt fi))]))]) \<rparr>"
  using assms by (simp add: sendResponse_def encodeResponse_def encodeFileInfo_def Let_def)

text \<open>
  Claim C3. For an accepted upload whose write to the backend succeeds and
  whose URL signing then fails, the handler answers with the status 200 and the
  success envelope of a file descriptor whose URL is the empty string; as long
  as the second reading of the clock is a time JSON can hold (a year within
  0..9999), the body is the document below, in which the descriptor has no
  \<open>url\<close> key.
\<close>

theorem upload_succeeds_without_url:
  assumes "Method r = ''POST''" and "FormFile r = Inr h"
    and "CreateTemp p [] (''upload-*'' @ Ext (Filename h)) = Inr tmp"
    and "Copy p tmp (Content h) = None" and "Open p tmp = None" and "Stat p tmp = Inr n"
    and "key = ''uploads/'' @ showInt (Unix (Now p 0)) @ ''-'' @ Filename h"
    and "ct = (if PartContentType h = [] then ''application/octet-stream'' else PartContentType h)"
    and "PutObject (Client s) (SvcBucketName s) key (FileReader tmp) n ct (backend w) = (Inr info, st)"
    and "fst (PresignedGetObject (Client s) (SvcBucketName s) key (Hour * 24) st) = Inl e"
  shows "\<exists>resp. fst (uploadHandler p s r w) = Responded resp
           \<and> resp = sendResponse True ''File uploaded successfully''
                      (FileData \<lparr> FileName = Filename h, Size = UploadSize info, ContentType = ct,
                                  URL = [], UploadedAt = Now p 1 \<rparr>) 200
           \<and> Status resp = 200
           \<and> (yearInRange (Now p 1) \<longrightarrow>
                Body resp = JSONBody (JObject
                  [(''success'', JBool True), (''message'', JString ''File uploaded successfully''),
                   (''data'', JObject
                      [(''fileName'', JString (Filename h)),
                       (''size'', JNumber (UploadSize info)),
                       (''contentType'', JString ct),
                       (''uploadedAt'', JTime (Now p 1))])]))"
proof -
  let ?fi = "\<lparr> FileName = Filename h, Size = UploadSize info, ContentType = ct,
               URL = [], UploadedAt = Now p 1 \<rparr>"
  let ?resp = "sendResponse True ''File uploaded successfully'' (FileData ?fi) 200"
  have a: "fst (uploadHandler p s r w) = Responded ?resp"
    by (simp add: uploadHandler_stored [OF assms(1-8)] assms(9) assms(10))
  have b: "Status ?resp = 200" by (simp add: sendResponse_def Let_def)
  have c: "yearInRange (Now p 1) \<longrightarrow>
             Body ?resp = JSONBody (JObject
                  [(''success'', JBool True), (''message'', JString ''File uploaded successfully''),
                   (''data'', JObject
                      [(''fileName'', JString (Filename h)),
                       (''size'', JNumber (UploadSize info)),
                       (''contentType'', JString ct),
                       (''uploadedAt'', JTime (Now p 1))])])"
    by (simp add: sendResponse_FileData)
  from a b c show ?thesis by blast
qed


lemma digitChar_digits:
  "digitChar 0 = CHR ''0''" "digitChar 1 = CHR ''1''" "digitChar 2 = CHR ''2''" "digitChar 3 = CHR ''3''"
  "digitChar 4 = CHR ''4''" "digitChar 5 = CHR ''5''" "digitChar 6 = CHR ''6''" "digitChar 7 = CHR ''7''"
  "digitChar 8 = CHR ''8''" "digitChar 9 = CHR ''9''" "digitChar (Suc 0) = CHR ''1''"
  unfolding digitChar_def
  by (simp_all add: char_of_def bit_iff_odd)

lemma showInt_stamp: "showInt 1700000000 = ''1700000000''"
  by (simp add: showInt_def digitChar_digits)

lemma Ext_samples: "Ext ''a.txt'' = ''.txt''" "Ext ''notes.md'' = ''.md''"
  by (simp_all add: Ext_def)

theorem upload_key_and_content_type_witness:
  "newCalls memWorld (snd (uploadHandler memPlatform memService (uploadRequest plainPart) memWorld)) =
     [PutObjectCall ''mybucket'' ''uploads/1700000000-a.txt'' (FileReader ''/tmp/upload-*.txt'') 10
        ''application/octet-stream'',
      PresignedGetObjectCall ''mybucket'' ''uploads/1700000000-a.txt'' (Hour * 24)]
   \<and> newCalls memWorld (snd (uploadHandler memPlatform memService (uploadRequest typedPart) memWorld)) =
     [PutObjectCall ''mybucket'' ''uploads/1700000000-notes.md'' (FileReader ''/tmp/upload-*.md'') 10
        ''text/markdown'',
      PresignedGetObjectCall ''mybucket'' ''uploads/1700000000-notes.md'' (Hour * 24)]"
proof -
  have m: "\<And>part. Method (uploadRequest part) = ''POST''"
    and f: "\<And>part. FormFile (uploadRequest part) = Inr part"
    by (simp_all add: uploadRequest_def)
  have c1: "CreateTemp memPlatform [] (''upload-*'' @ Ext (Filename plainPart)) = Inr ''/tmp/upload-*.txt''"
    and c2: "CreateTemp memPlatform [] (''upload-*'' @ Ext (Filename typedPart)) = Inr ''/tmp/upload-*.md''"
    by (simp_all add: memPlatform_def plainPart_def typedPart_def Ext_samples)
  have cp: "\<And>tmp content. Copy memPlatform tmp content = None"
    and op: "\<And>tmp. Open memPlatform tmp = None"
    and st: "\<And>tmp. Stat memPlatform tmp = Inr 10"
    by (simp_all add: memPlatform_def)
  have k1: "''uploads/1700000000-a.txt'' = ''uploads/'' @ showInt (Unix (Now memPlatform 0)) @ ''-'' @ Filename plainPart"
    and k2: "''uploads/1700000000-notes.md'' = ''uploads/'' @ showInt (Unix (Now memPlatform 0)) @ ''-'' @ Filename typedPart"
    by (simp_all add: memPlatform_def plainPart_def typedPart_def showInt_stamp)
  have t1: "''application/octet-stream'' =
      (if PartContentType plainPart = [] then ''application/octet-stream'' else PartContentType plainPart)"
    and t2: "''text/markdown'' =
      (if PartContentType typedPart = [] then ''application/octet-stream'' else PartContentType typedPart)"
    by (simp_all add: plainPart_def typedPart_def)
  have b: "SvcBucketName memService = ''mybucket''" by (simp add: memService_def)
  have p: "\<And>key tmp n ct. fst (PutObject (Client memService) ''mybucket'' key (FileReader tmp) n ct (backend memWorld))
             = Inr \<lparr> UploadSize = n \<rparr>"
    by (simp add: memService_def memClient_def)
  note a1 = upload_key_and_content_type [OF m f c1 cp op st k1 t1, where s = memService and w = memWorld,
              unfolded b p sum.case]
  note a2 = upload_key_and_content_type [OF m f c2 cp op st k2 t2, where s = memService and w = memWorld,
              unfolded b p sum.case]
  show ?thesis by (rule conjI [OF a1 a2])
qed

theorem upload_succeeds_without_url_witness:
  "fst (uploadHandler memPlatform unsignedService (uploadRequest plainPart) memWorld) =
     Responded
       \<lparr> Status = 200,
         Header = [(''Content-Type'', ''application/json'')],
         Body = JSONBody (JObject
                  [(''success'', JBool True), (''message'', JString ''File uploaded successfully''),
                   (''data'', JObject
                      [(''fileName'', JString ''a.txt''),
                       (''size'', JNumber 10),
                       (''contentType'', JString ''application/octet-stream''),
                       (''uploadedAt'', JTime \<lparr> Unix = 1700000000, Nanosecond = 1 \<rparr>)])]) \<rparr>"
proof -
  have m: "Method (uploadRequest plainPart) = ''POST''"
    and f: "FormFile (uploadRequest plainPart) = Inr plainPart"
    by (simp_all add: uploadRequest_def)
  have c1: "CreateTemp memPlatform [] (''upload-*'' @ Ext (Filename plainPart)) = Inr ''/tmp/upload-*.txt''"
    by (simp add: memPlatform_def plainPart_def Ext_samples)
  have cp: "\<And>tmp content. Copy memPlatform tmp content = None"
    and op: "\<And>tmp. Open memPlatform tmp = None"
    and st: "\<And>tmp. Stat memPlatform tmp = Inr 10"
    by (simp_all add: memPlatform_def)
  have k1: "''uploads/1700000000-a.txt'' = ''uploads/'' @ showInt (Unix (Now memPlatform 0)) @ ''-'' @ Filename plainPart"
    by (simp add: memPlatform_def plainPart_def showInt_stamp)
  have t1: "''application/octet-stream'' =
      (if PartContentType plainPart = [] then ''application/octet-stream'' else PartContentType plainPart)"
    by (simp add: plainPart_def)
  have put: "PutObject (Client unsignedService) (SvcBucketName unsignedService) ''uploads/1700000000-a.txt''
               (FileReader ''/tmp/upload-*.txt'') 10 ''application/octet-stream'' (backend memWorld)
             = (Inr \<lparr> UploadSize = 10 \<rparr>, [''mybucket''])"
    by (simp add: unsignedService_def memService_def memClient_def memWorld_def)
  have sign: "fst (PresignedGetObject (Client unsignedService) (SvcBucketName unsignedService)
                ''uploads/1700000000-a.txt'' (Hour * 24) [''mybucket'']) = Inl accessDenied"
    by (simp add: unsignedService_def memService_def)
  have y: "yearInRange (Now memPlatform 1)" by (simp add: yearInRange_def memPlatform_def)
  have n1: "Now memPlatform 1 = \<lparr> Unix = 1700000000, Nanosecond = 1 \<rparr>" by (simp add: memPlatform_def)
  have fn: "Filename plainPart = ''a.txt''" by (simp add: plainPart_def)
  from upload_succeeds_without_url [OF m f c1 cp op st k1 t1 put sign]
  obtain resp where r: "fst (uploadHandler memPlatform unsignedService (uploadRequest plainPart) memWorld) = Responded resp"
    and e: "resp = sendResponse True ''File uploaded successfully''
                      (FileData \<lparr> FileName = Filename plainPart, Size = UploadSize \<lparr> UploadSize = 10 \<rparr>,
                                  ContentType = ''application/octet-stream'',
                                  URL = [], UploadedAt = Now memPlatform 1 \<rparr>) 200"
    and s: "Status resp = 200"
    and bd: "yearInRange (Now memPlatform 1) \<longrightarrow>
                Body resp = JSONBody (JObject
                  [(''success'', JBool True), (''message'', JString ''File uploaded successfully''),
                   (''data'', JObject
                      [(''fileName'', JString (Filename plainPart)),
                       (''size'', JNumber (UploadSize \<lparr> UploadSize = 10 \<rparr>)),
                       (''contentType'', JString ''application/octet-stream''),
                       (''uploadedAt'', JTime (Now memPlatform 1))])])"
    by blast
  have h: "Header resp = [(''Content-Type'', ''application/json'')]"
    by (simp add: e sendResponse_def Let_def)
  from bd y have bd': "Body resp = JSONBody (JObject
                  [(''success'', JBool True), (''message'', JString ''File uploaded successfully''),
                   (''data'', JObject
                      [(''fileName'', JString ''a.txt''),
                       (''size'', JNumber 10),
                       (''contentType'', JString ''application/octet-stream''),
                       (''uploadedAt'', JTime \<lparr> Unix = 1700000000, Nanosecond = 1 \<rparr>)])])"
    by (simp only: n1 fn UploadInfo.simps simp_thms)
  have "resp = \<lparr> Status = 200,
         Header = [(''Content-Type'', ''application/json'')],
         Body = JSONBody (JObject
                  [(''success'', JBool True), (''message'', JString ''File uploaded successfully''),
                   (''data'', JObject
                      [(''fileName'', JString ''a.txt''),
                       (''size'', JNumber 10),
                       (''contentType'', JString ''application/octet-stream''),
                       (''uploadedAt'', JTime \<lparr> Unix = 1700000000, Nanosecond = 1 \<rparr>)])]) \<rparr>"
    using s h bd' by (cases resp) simp
  with r show ?thesis by simp
qed

lemma listObjects_eq:
  "listObjects s prefix w =
     (collectObjects (fst (ListObjects (Client s) (SvcBucketName s) prefix True (backend w))) [],
      \<lparr> backend = snd (ListObjects (Client s) (SvcBucketName s) prefix True (backend w)),
        calls = calls w @ [ListObjectsCall (SvcBucketName s) prefix True] \<rparr>)"
  by (simp add: listObjects_def invoke_eq split: prod.splits)

lemma getObjectURL_url:
  "fst (fst (getObjectURL s objectName (Hour * 24) w)) = signedURL s objectName (backend w)"
  by (simp add: getObjectURL_eq signedURL_def split: sum.splits)


lemma getObjectURL_calls:
  "calls (snd (getObjectURL s objectName expiry w)) =
     calls w @ [PresignedGetObjectCall (SvcBucketName s) objectName expiry]"
  by (simp add: getObjectURL_eq)

lemma fileListLoop_step:
  "fileListLoop s (obj # objects) fileList w =
     fileListLoop s objects
       (fileList @ [\<lparr> FileName = Base (Key obj), Size = ObjSize obj, ContentType = ObjContentType obj,
                       URL = signedURL s (Key obj) (backend w), UploadedAt = LastModified obj \<rparr>])
       (snd (getObjectURL s (Key obj) (Hour * 24) w))"
  using getObjectURL_url [of s "Key obj" w]
  by (cases "getObjectURL s (Key obj) (Hour * 24) w") auto




lemma fileListLoop_calls:
  "calls (snd (fileListLoop s objects fileList w)) =
     calls w @ map (\<lambda>obj. PresignedGetObjectCall (SvcBucketName s) (Key obj) (Hour * 24)) objects"
proof (induction objects arbitrary: fileList w)
  case Nil
  show ?case by simp
next
  case (Cons obj objects)
  show ?case by (simp only: fileListLoop_step Cons.IH getObjectURL_calls) simp
qed

lemma listFilesHandler_GET:
  assumes "Method r = ''GET''"
    and "prefix = (if queryGet r ''prefix'' = [] then ''uploads/'' else queryGet r ''prefix'')"
  shows "listFilesHandler s r w =
     (case listObjects s prefix w of
        (Inl err, w1) \<Rightarrow>
          (Responded (sendResponse False (''Error listing files: '' @ err) NoData 500), w1)
      | (Inr objects, w1) \<Rightarrow>
          (Responded (sendResponse True
              (''Found '' @ showInt (int (length (fst (fileListLoop s objects [] w1)))) @ '' files'')
              (FileListData (fst (fileListLoop s objects [] w1))) 200),
           snd (fileListLoop s objects [] w1)))"
  by (simp add: listFilesHandler_def assms Let_def split: prod.splits sum.splits)



lemma sendResponse_empty_list:
  "sendResponse True message (FileListData []) statusCode =
     \<lparr> Status = statusCode,
       Header = [(''Content-Type'', ''application/json'')],
       Body = JSONBody (JObject [(''success'', JBool True), (''message'', JString message),
                                 (''data'', JNull)]) \<rparr>"
  by (simp add: sendResponse_def encodeResponse_def Let_def)

lemma showInt_zero: "showInt 0 = ''0''"
  by (simp add: showInt_def digitChar_digits)

lemma listFilesHandler_empty:
  assumes "Method r = ''GET''"
    and "prefix = (if queryGet r ''prefix'' = [] then ''uploads/'' else queryGet r ''prefix'')"
    and "fst (ListObjects (Client s) (SvcBucketName s) prefix True (backend w)) = []"
  shows "listFilesHandler s r w =
     (Responded (sendResponse True ''Found 0 files'' (FileListData []) 200),
      \<lparr> backend = snd (ListObjects (Client s) (SvcBucketName s) prefix True (backend w)),
        calls = calls w @ [ListObjectsCall (SvcBucketName s) prefix True] \<rparr>)"
  by (simp add: listFilesHandler_GET [OF assms(1) assms(2)] listObjects_eq assms(3) showInt_zero)

lemma listFilesHandler_first_call:
  assumes "Method r = ''GET''"
    and "prefix = (if queryGet r ''prefix'' = [] then ''uploads/'' else queryGet r ''prefix'')"
  shows "\<exists>rest. newCalls w (snd (listFilesHandler s r w)) =
                  ListObjectsCall (SvcBucketName s) prefix True # rest"
proof (cases "collectObjects (fst (ListObjects (Client s) (SvcBucketName s) prefix True (backend w))) []")
  case (Inl err)
  then show ?thesis
    by (simp add: listFilesHandler_GET [OF assms] listObjects_eq newCalls_def)
next
  case (Inr objects)
  then show ?thesis
    by (simp add: listFilesHandler_GET [OF assms] listObjects_eq newCalls_def fileListLoop_calls)
qed

text \<open>
  Claim C4, as the program has it. For a \<open>GET\<close> on the list route: when the
  query gives no value for \<open>prefix\<close> (the parameter is absent or empty) the
  first client call of the handler is the recursive listing of the bucket with
  the prefix \<open>uploads/\<close>; and when the backend's listing delivers no object the
  handler answers with the status 200 and the success envelope with the
  message \<open>Found 0 files\<close>, after that one client call. The data of the envelope
  is the empty list of file descriptors as the nil slice: in the body the
  client receives, the \<open>data\<close> key is present and holds \<open>null\<close>, not an empty
  array.
\<close>

theorem list_default_prefix_and_empty_result:
  assumes "Method r = ''GET''"
    and "prefix = (if queryGet r ''prefix'' = [] then ''uploads/'' else queryGet r ''prefix'')"
  shows "(queryGet r ''prefix'' = [] \<longrightarrow>
            (\<exists>rest. newCalls w (snd (listFilesHandler s r w)) =
                      ListObjectsCall (SvcBucketName s) ''uploads/'' True # rest))
       \<and> (fst (ListObjects (Client s) (SvcBucketName s) prefix True (backend w)) = [] \<longrightarrow>
            fst (listFilesHandler s r w) =
              Responded (sendResponse True ''Found 0 files'' (FileListData []) 200)
            \<and> newCalls w (snd (listFilesHandler s r w)) = [ListObjectsCall (SvcBucketName s) prefix True]
            \<and> sendResponse True ''Found 0 files'' (FileListData []) 200 =
                \<lparr> Status = 200,
                  Header = [(''Content-Type'', ''application/json'')],
                  Body = JSONBody (JObject [(''success'', JBool True),
                                            (''message'', JString ''Found 0 files''),
                                            (''data'', JNull)]) \<rparr>)"
proof (intro conjI impI)
  assume q: "queryGet r ''prefix'' = []"
  with assms(2) have p: "prefix = ''uploads/''" by simp
  from listFilesHandler_first_call [OF assms, of w s]
  show "\<exists>rest. newCalls w (snd (listFilesHandler s r w)) =
                 ListObjectsCall (SvcBucketName s) ''uploads/'' True # rest"
    by (simp only: p)
next
  assume e: "fst (ListObjects (Client s) (SvcBucketName s) prefix True (backend w)) = []"
  note h = listFilesHandler_empty [OF assms e]
  show "fst (listFilesHandler s r w) =
          Responded (sendResponse True ''Found 0 files'' (FileListData []) 200)"
    by (simp only: h fst_conv)
  show "newCalls w (snd (listFilesHandler s r w)) = [ListObjectsCall (SvcBucketName s) prefix True]"
    by (simp add: h newCalls_def)
  show "sendResponse True ''Found 0 files'' (FileListData []) 200 =
                \<lparr> Status = 200,
                  Header = [(''Content-Type'', ''application/json'')],
                  Body = JSONBody (JObject [(''success'', JBool True),
                                            (''message'', JString ''Found 0 files''),
                                            (''data'', JNull)]) \<rparr>"
    by (rule sendResponse_empty_list)
qed

theorem list_default_prefix_and_empty_result_witness:
  "(\<exists>rest. newCalls memWorld (snd (listFilesHandler memService listRequest memWorld)) =
             ListObjectsCall ''mybucket'' ''uploads/'' True # rest)
   \<and> fst (listFilesHandler memService listRequest memWorld) =
       Responded (sendResponse True ''Found 0 files'' (FileListData []) 200)
   \<and> newCalls memWorld (snd (listFilesHandler memService listRequest memWorld)) =
       [ListObjectsCall ''mybucket'' ''uploads/'' True]"
proof -
  have m: "Method listRequest = ''GET''" by (simp add: listRequest_def)
  have q: "queryGet listRequest ''prefix'' = []" by (simp add: listRequest_def queryGet_def)
  have p: "''uploads/'' = (if queryGet listRequest ''prefix'' = [] then ''uploads/''
                           else queryGet listRequest ''prefix'')"
    by (simp add: q)
  have b: "SvcBucketName memService = ''mybucket''" by (simp add: memService_def)
  have e: "fst (ListObjects (Client memService) (SvcBucketName memService) ''uploads/'' True
                  (backend memWorld)) = []"
    by (simp add: memService_def memClient_def)
  note t = list_default_prefix_and_empty_result [OF m p, of memWorld memService, unfolded b]
  note a = t [THEN conjunct1, rule_format, OF q]
  note c = t [THEN conjunct2, rule_format, OF e [unfolded b]]
  show ?thesis
    by (rule conjI [OF a conjI [OF c [THEN conjunct1] c [THEN conjunct2, THEN conjunct1]]])
qed

text \<open>
  A list request on a backend without objects: the body carries \<open>null\<close> under
  \<open>data\<close>, and the response is not the one with the empty array there.
\<close>

theorem empty_listing_data_is_null:
  "fst (listFilesHandler memService listRequest memWorld) =
     Responded \<lparr> Status = 200,
                 Header = [(''Content-Type'', ''application/json'')],
                 Body = JSONBody (JObject [(''success'', JBool True),
                                           (''message'', JString ''Found 0 files''),
                                           (''data'', JNull)]) \<rparr>
   \<and> fst (listFilesHandler memService listRequest memWorld) \<noteq>
     Responded \<lparr> Status = 200,
                 Header = [(''Content-Type'', ''application/json'')],
                 Body = JSONBody (JObject [(''success'', JBool True),
                                           (''message'', JString ''Found 0 files''),
                                           (''data'', JArray [])]) \<rparr>"
proof -
  have m: "Method listRequest = ''GET''" by (simp add: listRequest_def)
  have q: "queryGet listRequest ''prefix'' = []" by (simp add: listRequest_def queryGet_def)
  have p: "''uploads/'' = (if queryGet listRequest ''prefix'' = [] then ''uploads/''
                           else queryGet listRequest ''prefix'')"
    by (simp add: q)
  have e: "fst (ListObjects (Client memService) (SvcBucketName memService) ''uploads/'' True
                  (backend memWorld)) = []"
    by (simp add: memService_def memClient_def)
  have r: "fst (listFilesHandler memService listRequest memWorld) =
             Responded (sendResponse True ''Found 0 files'' (FileListData []) 200)"
    by (simp only: listFilesHandler_empty [OF m p e] fst_conv)
  show ?thesis
    by (simp only: r sendResponse_empty_list) simp
qed














lemma downloadBuffer_calls:
  "calls (snd (downloadBuffer s objectName w)) = calls w @ [GetObjectCall (SvcBucketName s) objectName]"
  by (simp add: downloadBuffer_def invoke_eq split: sum.splits)

lemma checkObjectExists_calls:
  "calls (snd (checkObjectExists s objectName w)) = calls w @ [StatObjectCall (SvcBucketName s) objectName]"
  by (simp add: checkObjectExists_eq)

lemma listObjects_calls:
  "calls (snd (listObjects s prefix w)) = calls w @ [ListObjectsCall (SvcBucketName s) prefix True]"
  by (simp add: listObjects_eq)

lemma uploadFile_calls:
  "calls (snd (uploadFile p s objectName filePath contentType w)) = calls w
   \<or> (\<exists>n. calls (snd (uploadFile p s objectName filePath contentType w)) =
          calls w @ [PutObjectCall (SvcBucketName s) objectName (FileReader filePath) n contentType])"
  by (simp add: uploadFile_def invoke_eq split: option.splits sum.splits)

lemma deleteObject_calls:
  "calls (snd (deleteObject s objectName w)) = calls w @ [RemoveObjectCall (SvcBucketName s) objectName]"
  by (simp add: deleteObject_def invoke_eq split: option.splits)

lemma storage_DeleteObject_agrees: "DeleteObject s objectName w = deleteObject s objectName w"
  by (simp add: DeleteObject_def deleteObject_def)

lemma newCalls_self: "newCalls w w = []"
  by (simp add: newCalls_def)

lemma healthCheckHandler_newCalls:
  "newCalls w (snd (healthCheckHandler s r w)) = [ListObjectsCall (SvcBucketName s) [] True]"
proof -
  have "calls (snd (healthCheckHandler s r w)) = calls (snd (listObjects s [] w))"
    by (simp add: healthCheckHandler_def split: prod.splits sum.splits)
  then show ?thesis by (simp add: listObjects_calls newCalls_def)
qed

lemma listFilesHandler_no_remove:
  assumes "c \<in> set (newCalls w (snd (listFilesHandler s r w)))"
  shows "\<not> isRemoveObject c"
proof (cases "Method r = ''GET''")
  case False
  then have "snd (listFilesHandler s r w) = w" by (simp add: listFilesHandler_def)
  with assms show ?thesis by (simp add: newCalls_self)
next
  case True
  define prefix where "prefix = (if queryGet r ''prefix'' = [] then ''uploads/'' else queryGet r ''prefix'')"
  note h = listFilesHandler_GET [OF True prefix_def, of s w]
  obtain res w1 where l: "listObjects s prefix w = (res, w1)" by (cases "listObjects s prefix w")
  have c1: "calls w1 = calls w @ [ListObjectsCall (SvcBucketName s) prefix True]"
    using listObjects_calls [of s prefix w] by (simp add: l)
  show ?thesis
  proof (cases res)
    case (Inl err)
    then have "snd (listFilesHandler s r w) = w1" by (simp add: h l)
    with assms show ?thesis by (auto simp: c1 newCalls_def)
  next
    case (Inr objects)
    then have "snd (listFilesHandler s r w) = snd (fileListLoop s objects [] w1)"
      by (simp add: h l)
    with assms show ?thesis
      by (auto simp: fileListLoop_calls c1 newCalls_def)
  qed
qed

lemma getFileHandler_no_remove:
  assumes "c \<in> set (newCalls w (snd (getFileHandler s r w)))"
  shows "\<not> isRemoveObject c"
proof -
  let ?key = "drop (length ''/files/'') (Path r)"
  let ?w1 = "snd (checkObjectExists s ?key w)"
  have "snd (getFileHandler s r w) = w
        \<or> snd (getFileHandler s r w) = ?w1
        \<or> snd (getFileHandler s r w) = snd (downloadBuffer s ?key ?w1)
        \<or> snd (getFileHandler s r w) = snd (getObjectURL s ?key Hour ?w1)"
    by (simp add: getFileHandler_def Let_def split: prod.splits sum.splits option.splits)
  then have "newCalls w (snd (getFileHandler s r w)) = []
        \<or> newCalls w (snd (getFileHandler s r w)) = [StatObjectCall (SvcBucketName s) ?key]
        \<or> newCalls w (snd (getFileHandler s r w)) =
             [StatObjectCall (SvcBucketName s) ?key, GetObjectCall (SvcBucketName s) ?key]
        \<or> newCalls w (snd (getFileHandler s r w)) =
             [StatObjectCall (SvcBucketName s) ?key, PresignedGetObjectCall (SvcBucketName s) ?key Hour]"
    by (auto simp: newCalls_def checkObjectExists_calls downloadBuffer_calls getObjectURL_calls)
  with assms show ?thesis by auto
qed

lemma uploadHandler_world:
  "snd (uploadHandler p s r w) = w
   \<or> (\<exists>key tmp ct. snd (uploadHandler p s r w) = snd (uploadFile p s key tmp ct w)
         \<or> snd (uploadHandler p s r w) =
             snd (getObjectURL s key (Hour * 24) (snd (uploadFile p s key tmp ct w))))"
proof (cases "Method r = ''POST''")
  case False
  then show ?thesis by (simp add: uploadHandler_def)
next
  case True
  show ?thesis
  proof (cases "FormFile r")
    case (Inl err)
    with True show ?thesis by (simp add: uploadHandler_def)
  next
    case (Inr h)
    show ?thesis
    proof (cases "CreateTemp p [] (''upload-*'' @ Ext (Filename h))")
      case (Inl err)
      with True \<open>FormFile r = Inr h\<close> show ?thesis by (simp add: uploadHandler_def)
    next
      case tmp: (Inr tmp)
      show ?thesis
      proof (cases "Copy p tmp (Content h)")
        case (Some err)
        with True \<open>FormFile r = Inr h\<close> tmp show ?thesis by (simp add: uploadHandler_def)
      next
        case None
        define key where "key = ''uploads/'' @ showInt (Unix (Now p 0)) @ ''-'' @ Filename h"
        define ct where "ct = (if PartContentType h = [] then ''application/octet-stream''
                               else PartContentType h)"
        note hb = uploadHandler_buffered [OF True \<open>FormFile r = Inr h\<close> tmp None, of s w,
                    folded key_def ct_def]
        obtain res w1 where u: "uploadFile p s key tmp ct w = (res, w1)"
          by (cases "uploadFile p s key tmp ct w")
        show ?thesis
        proof (cases res)
          case (Inl err)
          then have "snd (uploadHandler p s r w) = snd (uploadFile p s key tmp ct w)"
            by (simp add: hb u)
          then show ?thesis by blast
        next
          case (Inr info)
          then have "snd (uploadHandler p s r w) =
                       snd (getObjectURL s key (Hour * 24) (snd (uploadFile p s key tmp ct w)))"
            by (simp add: hb u split: prod.splits)
          then show ?thesis by blast
        qed
      qed
    qed
  qed
qed

lemma uploadHandler_no_remove:
  assumes "c \<in> set (newCalls w (snd (uploadHandler p s r w)))"
  shows "\<not> isRemoveObject c"
proof -
  from uploadHandler_world [of p s r w]
  consider "snd (uploadHandler p s r w) = w"
    | key tmp ct where "snd (uploadHandler p s r w) = snd (uploadFile p s key tmp ct w)"
    | key tmp ct where "snd (uploadHandler p s r w) =
                          snd (getObjectURL s key (Hour * 24) (snd (uploadFile p s key tmp ct w)))"
    by blast
  then show ?thesis
  proof cases
    case 1
    with assms show ?thesis by (simp add: newCalls_self)
  next
    case 2
    with assms uploadFile_calls [of p s key tmp ct w] show ?thesis
      by (auto simp: newCalls_def)
  next
    case 3
    with assms uploadFile_calls [of p s key tmp ct w] show ?thesis
      by (auto simp: newCalls_def getObjectURL_calls)
  qed
qed

lemma serve_cases:
  "serve p s r w = uploadHandler p s r w \<or> serve p s r w = listFilesHandler s r w
   \<or> serve p s r w = getFileHandler s r w \<or> serve p s r w = healthCheckHandler s r w
   \<or> snd (serve p s r w) = w"
  by (simp add: serve_def routes_def)

lemma serve_no_remove:
  assumes "c \<in> set (newCalls w (snd (serve p s r w)))"
  shows "\<not> isRemoveObject c"
  using serve_cases [of p s r w] assms
    uploadHandler_no_remove [of c w p s r] listFilesHandler_no_remove [of c w s r]
    getFileHandler_no_remove [of c w s r] healthCheckHandler_newCalls [of w s r]
  by (auto simp: newCalls_self)

lemma routes_patterns:
  "map fst (routes p s) = [''/upload'', ''/files'', ''/files/'', ''/health'']"
  by (simp add: routes_def)

text \<open>
  Claim C5, as the program has it. The routes \<open>main\<close> registers are the upload,
  list, retrieve and health routes and no other; whatever the request, the
  platform, the service and the world, serving it makes no \<open>RemoveObject\<close> call.
  The gateway does have the delete operation (one \<open>RemoveObject\<close> call on the
  configured bucket, in both packages), but no handler calls it: deletion is
  not exposed over HTTP.
\<close>

theorem no_route_reaches_deleteObject:
  "(\<forall>c \<in> set (newCalls w (snd (serve p s r w))). \<not> isRemoveObject c)
   \<and> map fst (routes p s) = [''/upload'', ''/files'', ''/files/'', ''/health'']
   \<and> newCalls w (snd (deleteObject s key w)) = [RemoveObjectCall (SvcBucketName s) key]
   \<and> DeleteObject s key w = deleteObject s key w"
proof (intro conjI ballI)
  fix c assume "c \<in> set (newCalls w (snd (serve p s r w)))"
  then show "\<not> isRemoveObject c" by (rule serve_no_remove)
next
  show "map fst (routes p s) = [''/upload'', ''/files'', ''/files/'', ''/health'']"
    by (rule routes_patterns)
  show "newCalls w (snd (deleteObject s key w)) = [RemoveObjectCall (SvcBucketName s) key]"
    by (simp add: deleteObject_calls newCalls_def)
  show "DeleteObject s key w = deleteObject s key w" by (rule storage_DeleteObject_agrees)
qed

text \<open>
  There is no request, on any route, whose serving invokes the removal of an
  object.
\<close>

theorem no_request_deletes:
  "\<not> (\<exists>p s r w. \<exists>c \<in> set (newCalls w (snd (serve p s r w))). isRemoveObject c)"
  using serve_no_remove by blast

theorem no_route_reaches_deleteObject_witness:
  "newCalls memWorld (snd (serve memPlatform memService retrieveRequest memWorld)) =
     [StatObjectCall ''mybucket'' ''a.txt'']
   \<and> \<not> isRemoveObject (StatObjectCall ''mybucket'' ''a.txt'')
   \<and> newCalls memWorld (snd (deleteObject memService ''a.txt'' memWorld)) =
     [RemoveObjectCall ''mybucket'' ''a.txt'']"
proof -
  have b: "SvcBucketName memService = ''mybucket''" by (simp add: memService_def)
  have sv: "serve memPlatform memService retrieveRequest memWorld =
              getFileHandler memService retrieveRequest memWorld"
    by (simp add: serve_def routes_def accepts_def retrieveRequest_def)
  have m1: "Method retrieveRequest = ''GET''" and p1: "Path retrieveRequest = ''/files/'' @ ''a.txt''"
    by (simp_all add: retrieveRequest_def)
  have st: "fst (checkObjectExists memService ''a.txt'' memWorld) = Inr False"
    by (simp add: checkObjectExists_eq memService_def memClient_def noSuchKey_def)
  obtain w1 where ce: "checkObjectExists memService ''a.txt'' memWorld = (Inr False, w1)"
    using st by (cases "checkObjectExists memService ''a.txt'' memWorld") simp
  have "snd (getFileHandler memService retrieveRequest memWorld) =
          snd (checkObjectExists memService ''a.txt'' memWorld)"
    by (simp add: getFileHandler_GET [OF m1 p1] ce)
  then have n: "newCalls memWorld (snd (serve memPlatform memService retrieveRequest memWorld)) =
     [StatObjectCall ''mybucket'' ''a.txt'']"
    by (simp add: sv checkObjectExists_calls newCalls_def b)
  note t = no_route_reaches_deleteObject [of memWorld memPlatform memService retrieveRequest "''a.txt''"]
  have i: "StatObjectCall ''mybucket'' ''a.txt''
             \<in> set (newCalls memWorld (snd (serve memPlatform memService retrieveRequest memWorld)))"
    by (simp only: n) simp
  note a = t [THEN conjunct1, THEN bspec, OF i]
  note d = t [THEN conjunct2, THEN conjunct2, THEN conjunct1, unfolded b]
  show ?thesis by (rule conjI [OF n conjI [OF a d]])
qed

end
